theory Spec2Isabelle
  imports Complex_Main
begin

section \<open>Python and numpy values\<close>

text \<open>
  The risk and alert code is Python. Exceptions are values of \<open>py_error\<close>; a function
  that can raise returns \<open>py_error + 'a\<close> with \<open>Inl\<close> for the exception.
  \<open>HTTPException\<close> carries its status code.
\<close>

datatype py_error =
    IndexError
  | ValueError
  | KeyError
  | TypeError
  | AttributeError
  | UnboundLocalError
  | CollaboratorError
  | HTTPException nat

text \<open>
  A numpy \<open>float64\<close> value: a finite one is given by the real it denotes, and the three
  special values are kept, because numpy's scalar division does not raise on a zero
  divisor: it yields \<open>inf\<close>, \<open>-inf\<close> or \<open>nan\<close> (with a warning only). The three functions
  that follow compute on the reals, without rounding.
\<close>

datatype float64 = Finite real | PosInf | NegInf | NaN

text \<open>\<open>a / b\<close> on numpy scalars. The divisor \<open>Finite 0\<close> stands for \<open>+0.0\<close>.\<close>

fun np_divide :: "float64 \<Rightarrow> float64 \<Rightarrow> float64" where
  "np_divide NaN b = NaN"
| "np_divide a NaN = NaN"
| "np_divide (Finite a) (Finite b) =
     (if b \<noteq> 0 then Finite (a / b)
      else if 0 < a then PosInf
      else if a < 0 then NegInf
      else NaN)"
| "np_divide (Finite a) PosInf = Finite 0"
| "np_divide (Finite a) NegInf = Finite 0"
| "np_divide PosInf (Finite b) = (if 0 \<le> b then PosInf else NegInf)"
| "np_divide NegInf (Finite b) = (if 0 \<le> b then NegInf else PosInf)"
| "np_divide PosInf PosInf = NaN"
| "np_divide PosInf NegInf = NaN"
| "np_divide NegInf PosInf = NaN"
| "np_divide NegInf NegInf = NaN"

text \<open>\<open>np.mean\<close>: the arithmetic mean; \<open>nan\<close> on an empty sequence.\<close>

definition np_mean :: "real list \<Rightarrow> float64" where
  "np_mean xs = (if xs = [] then NaN else Finite (sum_list xs / real (length xs)))"

text \<open>\<open>np.std\<close> with its default \<open>ddof = 0\<close>: the population standard deviation.\<close>

definition np_std :: "real list \<Rightarrow> float64" where
  "np_std xs =
     (if xs = [] then NaN
      else let m = sum_list xs / real (length xs)
           in Finite (sqrt (sum_list (map (\<lambda>x. (x - m)\<^sup>2) xs) / real (length xs))))"


text \<open>
  Comparisons of float64 values are exact; \<open>nan\<close> compares false with everything.
\<close>

fun le64 :: "float64 \<Rightarrow> float64 \<Rightarrow> bool" where
  "le64 NaN b = False"
| "le64 a NaN = False"
| "le64 NegInf b = True"
| "le64 a PosInf = True"
| "le64 PosInf b = False"
| "le64 a NegInf = False"
| "le64 (Finite a) (Finite b) = (a \<le> b)"

definition lt64 :: "float64 \<Rightarrow> float64 \<Rightarrow> bool" where
  "lt64 a b = (le64 a b \<and> \<not> le64 b a)"

text \<open>
  \<open>np.maximum\<close> and \<open>np.minimum\<close> select one of their arguments and propagate \<open>nan\<close>;
  \<open>np.min\<close> raises \<open>ValueError\<close> on an empty array.
\<close>

fun np_maximum :: "float64 \<Rightarrow> float64 \<Rightarrow> float64" where
  "np_maximum NaN b = NaN"
| "np_maximum a NaN = NaN"
| "np_maximum PosInf b = PosInf"
| "np_maximum a PosInf = PosInf"
| "np_maximum NegInf b = b"
| "np_maximum a NegInf = a"
| "np_maximum (Finite a) (Finite b) = Finite (max a b)"

fun np_minimum :: "float64 \<Rightarrow> float64 \<Rightarrow> float64" where
  "np_minimum NaN b = NaN"
| "np_minimum a NaN = NaN"
| "np_minimum NegInf b = NegInf"
| "np_minimum a NegInf = NegInf"
| "np_minimum PosInf b = b"
| "np_minimum a PosInf = a"
| "np_minimum (Finite a) (Finite b) = Finite (min a b)"

definition np_min :: "float64 list \<Rightarrow> py_error + float64" where
  "np_min xs = (case xs of [] \<Rightarrow> Inl ValueError | x # ys \<Rightarrow> Inr (foldl np_minimum x ys))"

text \<open>
  The rounded operations of float64 are not fixed here: sums, differences, products,
  quotients, \<open>np.mean\<close> and \<open>np.std\<close> are parameters, together with the set of reals
  that are float64 values. What is proved for every such arithmetic holds for numpy's.
\<close>

record arithmetic =
  is_double :: "real \<Rightarrow> bool"
  plus64 :: "float64 \<Rightarrow> float64 \<Rightarrow> float64"
  minus64 :: "float64 \<Rightarrow> float64 \<Rightarrow> float64"
  times64 :: "float64 \<Rightarrow> float64 \<Rightarrow> float64"
  divide64 :: "float64 \<Rightarrow> float64 \<Rightarrow> float64"
  mean64 :: "float64 list \<Rightarrow> float64"
  std64 :: "float64 list \<Rightarrow> float64"

text \<open>A Python number: the \<open>int\<close> that a \<open>return 0\<close> gives, or a float64.\<close>

datatype py_number = PyInt int | PyFloat float64

text \<open>Sorting compares exactly and puts \<open>nan\<close> last.\<close>

definition sorts_before :: "float64 \<Rightarrow> float64 \<Rightarrow> bool" where
  "sorts_before a b = (b = NaN \<or> le64 a b)"

fun insert64 :: "float64 \<Rightarrow> float64 list \<Rightarrow> float64 list" where
  "insert64 x [] = [x]"
| "insert64 x (y # ys) = (if sorts_before x y then x # y # ys else y # insert64 x ys)"

fun sort64 :: "float64 list \<Rightarrow> float64 list" where
  "sort64 [] = []"
| "sort64 (x # xs) = insert64 x (sort64 xs)"

text \<open>
  numpy's linear interpolation \<open>_lerp(a, b, t)\<close>: \<open>a + (b - a) * t\<close>, replaced by
  \<open>b - (b - a) * (1 - t)\<close> where \<open>t \<ge> 0.5\<close>.
\<close>

definition lerp :: "arithmetic \<Rightarrow> float64 \<Rightarrow> float64 \<Rightarrow> float64 \<Rightarrow> float64" where
  "lerp A a b t =
     (let diff_b_a = minus64 A b a
      in if le64 (Finite (1 / 2)) t
         then minus64 A b (times64 A diff_b_a (minus64 A (Finite 1) t))
         else plus64 A a (times64 A diff_b_a t))"

text \<open>
  numpy's \<open>_quantile\<close> of a non-empty array with the default method, linear
  interpolation: \<open>nan\<close> if the array holds one; else the virtual index
  \<open>(n - 1) * quantile\<close>, the elements of the sorted array at the two neighbouring ranks
  (twice the last element for a virtual index at or above \<open>n - 1\<close>, twice the first for one
  below \<open>0\<close>), and their interpolation at the distance of the virtual index from the lower
  rank. A virtual index that is not finite gives \<open>nan\<close> through the interpolation.
\<close>

definition np_quantile :: "arithmetic \<Rightarrow> float64 list \<Rightarrow> float64 \<Rightarrow> float64" where
  "np_quantile A a quantile =
     (let values_count = length a;
          arr = sort64 a
      in if arr ! (values_count - 1) = NaN then NaN
         else
           (case times64 A (Finite (real values_count - 1)) quantile of
              Finite virtual_index \<Rightarrow>
                if real values_count - 1 \<le> virtual_index
                then lerp A (arr ! (values_count - 1)) (arr ! (values_count - 1))
                       (minus64 A (Finite virtual_index) (Finite (- 1)))
                else if virtual_index < 0
                then lerp A (arr ! 0) (arr ! 0) (minus64 A (Finite virtual_index) (Finite 0))
                else
                  let previous_index = nat \<lfloor>virtual_index\<rfloor>
                  in lerp A (arr ! previous_index) (arr ! (previous_index + 1))
                       (minus64 A (Finite virtual_index) (Finite (real previous_index)))
            | _ \<Rightarrow> NaN))"

text \<open>
  \<open>np.percentile(a, q)\<close>: numpy divides \<open>q\<close> by 100, raises \<open>ValueError\<close> unless the
  quotient lies in \<open>[0, 1]\<close>, and only then reads the array, where an empty one raises
  \<open>IndexError\<close>. No \<open>method\<close> is passed by the callers, so the method is the default one.
\<close>

definition np_percentile :: "arithmetic \<Rightarrow> float64 list \<Rightarrow> float64 \<Rightarrow> py_error + float64" where
  "np_percentile A a q =
     (let quantile = divide64 A q (Finite 100)
      in if \<not> (le64 (Finite 0) quantile \<and> le64 quantile (Finite 1)) then Inl ValueError
         else if a = [] then Inl IndexError
         else Inr (np_quantile A a quantile))"

text \<open>
  \<open>np.cumprod\<close>: the first element, then each product of the previous result with the
  next element. \<open>np.maximum.accumulate\<close>: the same with \<open>np.maximum\<close>.
\<close>

fun cumprod_from :: "arithmetic \<Rightarrow> float64 \<Rightarrow> float64 list \<Rightarrow> float64 list" where
  "cumprod_from A acc [] = []"
| "cumprod_from A acc (x # xs) = times64 A acc x # cumprod_from A (times64 A acc x) xs"

fun np_cumprod :: "arithmetic \<Rightarrow> float64 list \<Rightarrow> float64 list" where
  "np_cumprod A [] = []"
| "np_cumprod A (x # xs) = x # cumprod_from A x xs"

fun maximum_from :: "float64 \<Rightarrow> float64 list \<Rightarrow> float64 list" where
  "maximum_from m [] = []"
| "maximum_from m (x # xs) = np_maximum m x # maximum_from (np_maximum m x) xs"

fun np_maximum_accumulate :: "float64 list \<Rightarrow> float64 list" where
  "np_maximum_accumulate [] = []"
| "np_maximum_accumulate (x # xs) = x # maximum_from x xs"

section \<open>Risk metrics (risk-management-service/main.py)\<close>

text \<open>
  The default arguments (\<open>confidence_level = 0.95\<close>, \<open>risk_free_rate = 0.0\<close>) are passed
  explicitly.
\<close>

definition calculate_var :: "arithmetic \<Rightarrow> float64 list \<Rightarrow> float64 \<Rightarrow> py_error + float64" where
  "calculate_var A returns confidence_level =
     np_percentile A returns (times64 A (minus64 A (Finite 1) confidence_level) (Finite 100))"

definition calculate_expected_shortfall ::
  "arithmetic \<Rightarrow> float64 list \<Rightarrow> float64 \<Rightarrow> py_error + float64" where
  "calculate_expected_shortfall A returns confidence_level =
     (case calculate_var A returns confidence_level of
        Inl e \<Rightarrow> Inl e
      | Inr var \<Rightarrow> Inr (mean64 A (filter (\<lambda>r. le64 r var) returns)))"

text \<open>\<open>calculate_sharpe_ratio\<close>, on the arithmetic without rounding.\<close>

definition calculate_sharpe_ratio :: "real list \<Rightarrow> real \<Rightarrow> float64" where
  "calculate_sharpe_ratio returns risk_free_rate =
     (let excess_returns = map (\<lambda>r. r - risk_free_rate) returns
      in np_divide (np_mean excess_returns) (np_std excess_returns))"

definition calculate_sortino_ratio ::
  "arithmetic \<Rightarrow> float64 list \<Rightarrow> float64 \<Rightarrow> py_number" where
  "calculate_sortino_ratio A returns risk_free_rate =
     (let excess_returns = map (\<lambda>r. minus64 A r risk_free_rate) returns;
          downside_returns = filter (\<lambda>e. lt64 e (Finite 0)) excess_returns
      in if length downside_returns = 0 then PyInt 0
         else PyFloat (divide64 A (mean64 A excess_returns) (std64 A downside_returns)))"

definition calculate_max_drawdown :: "arithmetic \<Rightarrow> float64 list \<Rightarrow> py_error + float64" where
  "calculate_max_drawdown A returns =
     (let cumulative = np_cumprod A (map (\<lambda>r. plus64 A (Finite 1) r) returns);
          running_max = np_maximum_accumulate cumulative;
          drawdown = map2 (\<lambda>c m. divide64 A (minus64 A c m) m) cumulative running_max
      in np_min drawdown)"

section \<open>Threshold evaluation\<close>

text \<open>
  An alert candidate is a Python dict with the key \<open>type\<close> and, depending on its kind,
  \<open>service_name\<close>, \<open>value\<close> and \<open>threshold\<close>; a missing key is \<open>None\<close> here and a
  \<open>KeyError\<close> where the code subscripts it. The \<open>message\<close> entry of
  \<open>check_thresholds\<close> is a formatted sentence that nothing else reads; it is left out.
\<close>

record alert =
  atype :: string
  service_name :: "string option"
  avalue :: "real option"
  athreshold :: "real option"

definition resource_alert :: "string \<Rightarrow> real \<Rightarrow> real \<Rightarrow> alert" where
  "resource_alert ty v t =
     \<lparr>atype = ty, service_name = None, avalue = Some v, athreshold = Some t\<rparr>"

text \<open>
  One \<open>if metrics[k] > limits[a]: alerts.append(...)\<close> block: the left operand is
  looked up first (\<open>KeyError\<close>), then the right one (the given error), and the alert is
  appended only on strict \<open>>\<close>.
\<close>

definition check_one ::
  "(string \<rightharpoonup> real) \<Rightarrow> string \<Rightarrow> (string \<rightharpoonup> real) \<Rightarrow> string \<Rightarrow> py_error \<Rightarrow> string \<Rightarrow>
   alert list \<Rightarrow> py_error + alert list" where
  "check_one metrics k limits a missing ty alerts =
     (case metrics k of
        None \<Rightarrow> Inl KeyError
      | Some v \<Rightarrow>
          (case limits a of
             None \<Rightarrow> Inl missing
           | Some t \<Rightarrow> Inr (if v > t then alerts @ [resource_alert ty v t] else alerts)))"

definition then_check ::
  "py_error + alert list \<Rightarrow> (alert list \<Rightarrow> py_error + alert list) \<Rightarrow> py_error + alert list" where
  "then_check r f = (case r of Inl e \<Rightarrow> Inl e | Inr alerts \<Rightarrow> f alerts)"

text \<open>\<open>AlertManager.check_thresholds\<close> of monitoring-services/alert_manager.py.\<close>

definition check_thresholds ::
  "(string \<rightharpoonup> real) \<Rightarrow> (string \<rightharpoonup> real) \<Rightarrow> py_error + alert list" where
  "check_thresholds thresholds metrics =
     then_check (then_check
       (check_one metrics ''cpu'' thresholds ''cpu'' KeyError ''cpu'' [])
       (check_one metrics ''memory'' thresholds ''memory'' KeyError ''memory''))
       (check_one metrics ''disk'' thresholds ''disk'' KeyError ''disk'')"

text \<open>
  The configuration row read by the monitoring application. \<open>float_attr\<close> holds the
  numeric attributes the object has; reading another one raises \<open>AttributeError\<close>.
\<close>

record alert_config =
  enabled :: bool
  email_enabled :: bool
  slack_enabled :: bool
  email_recipients :: "string option"
  float_attr :: "string \<rightharpoonup> real"

text \<open>The candidate list built by \<open>AlertManager.check_metrics\<close> (app/alert_manager.py).\<close>

definition check_metrics_alerts ::
  "(string \<rightharpoonup> real) \<Rightarrow> alert_config \<Rightarrow> py_error + alert list" where
  "check_metrics_alerts metrics cfg =
     then_check (then_check (then_check (then_check
       (check_one metrics ''cpu_usage'' (float_attr cfg) ''cpu_threshold'' AttributeError
          ''cpu_usage'' [])
       (check_one metrics ''memory_usage'' (float_attr cfg) ''memory_threshold'' AttributeError
          ''memory_usage''))
       (check_one metrics ''disk_usage'' (float_attr cfg) ''disk_threshold'' AttributeError
          ''disk_usage''))
       (check_one metrics ''network_in'' (float_attr cfg) ''network_in_threshold'' AttributeError
          ''network_in''))
       (check_one metrics ''network_out'' (float_attr cfg) ''network_out_threshold'' AttributeError
          ''network_out'')"

section \<open>Cooldown and sending (app/alert_manager.py)\<close>

text \<open>
  What leaves the manager: a call of the alert sender, an e-mail or a Slack post.
\<close>

datatype notification =
    ServiceDownNotice string
  | ResourceNotice string real real
  | EmailNotice string string string string
  | SlackNotice string string string

text \<open>An argument of a method call: the dict of an alert or a string.\<close>

datatype py_arg = DictArg alert | StrArg string

record history_row =
  h_alert_type :: py_arg
  h_severity :: py_arg
  h_message :: py_arg
  h_timestamp :: real

text \<open>
  The manager with the effects it has on the outside: the notifications that went out
  and the rows committed to the alert history table. Logger calls are not kept.
\<close>

record manager =
  cooldown_period :: int
  last_alert_time :: "string \<rightharpoonup> real"
  notifications :: "notification list"
  history :: "history_row list"

text \<open>
  The collaborators, whose outcome the manager does not decide: whether the alert sender's
  call returns, whether \<open>next(get_db())\<close> yields a session, what the configuration query
  gives, whether building and committing the default configuration works, whether a
  commit, the SMTP exchange and the webhook post succeed.
\<close>

record collaborators =
  sender_returns :: bool
  db_session :: bool
  config_row :: "py_error + alert_config option"
  default_config :: "py_error + alert_config"
  commit_ok :: bool
  smtp_ok :: bool
  slack_webhook_url :: string
  slack_post_ok :: bool

text \<open>
  \<open>_get_alert_config\<close>. When no session was obtained, the \<open>finally\<close> block reads the
  unbound local \<open>db\<close> and its \<open>UnboundLocalError\<close> replaces the \<open>return None\<close> of the
  handler. A failing query is caught and gives \<open>None\<close>.
\<close>

definition get_alert_config :: "collaborators \<Rightarrow> py_error + alert_config option" where
  "get_alert_config c =
     (if \<not> db_session c then Inl UnboundLocalError
      else case config_row c of Inl e \<Rightarrow> Inr None | Inr r \<Rightarrow> Inr r)"

text \<open>\<open>_create_default_config\<close>: its handler re-raises.\<close>

definition create_default_config :: "collaborators \<Rightarrow> py_error + alert_config" where
  "create_default_config c =
     (if \<not> db_session c then Inl UnboundLocalError else default_config c)"

text \<open>
  \<open>_save_alert_history\<close>. The class body defines this name twice; the later definition,
  with the parameters \<open>(alert_type, severity, message)\<close>, is the one bound, so a call
  with another number of arguments raises \<open>TypeError\<close>. In the body a failed commit is
  caught and rolled back; without a session the handler itself raises.
\<close>

definition save_alert_history ::
  "collaborators \<Rightarrow> manager \<Rightarrow> py_arg list \<Rightarrow> real \<Rightarrow> py_error + manager" where
  "save_alert_history c s args now =
     (case args of
        [alert_type, severity, message] \<Rightarrow>
          if \<not> db_session c then Inl UnboundLocalError
          else if commit_ok c then
            Inr (s\<lparr>history := history s @
                   [\<lparr>h_alert_type = alert_type, h_severity = severity,
                     h_message = message, h_timestamp = now\<rparr>]\<rparr>)
          else Inr s
      | _ \<Rightarrow> Inl TypeError)"

definition alert_key :: "alert \<Rightarrow> string" where
  "alert_key a = atype a @ ''_'' @ (case service_name a of None \<Rightarrow> [] | Some n \<Rightarrow> n)"

text \<open>The two calls of the alert sender in \<open>_send_alert\<close>.\<close>

definition deliver :: "collaborators \<Rightarrow> manager \<Rightarrow> alert \<Rightarrow> py_error + manager" where
  "deliver c s a =
     (if atype a = ''service_down'' then
        (case service_name a of
           None \<Rightarrow> Inl KeyError
         | Some n \<Rightarrow>
             if sender_returns c
             then Inr (s\<lparr>notifications := notifications s @ [ServiceDownNotice n]\<rparr>)
             else Inl CollaboratorError)
      else
        (case avalue a of
           None \<Rightarrow> Inl KeyError
         | Some v \<Rightarrow>
             (case athreshold a of
                None \<Rightarrow> Inl KeyError
              | Some t \<Rightarrow>
                  if sender_returns c
                  then Inr (s\<lparr>notifications := notifications s @ [ResourceNotice (atype a) v t]\<rparr>)
                  else Inl CollaboratorError)))"

text \<open>
  \<open>_send_alert\<close>: \<open>now\<close> is the clock read by the cooldown test, \<open>later\<close> the clock read
  after sending. Every exception ends in the handler, which only logs.
\<close>

definition private_send_alert ::
  "collaborators \<Rightarrow> manager \<Rightarrow> alert \<Rightarrow> real \<Rightarrow> real \<Rightarrow> manager" where
  "private_send_alert c s a now later =
     (let key = alert_key a in
      if (case last_alert_time s key of
            None \<Rightarrow> False
          | Some t \<Rightarrow> now - t < real_of_int (cooldown_period s))
      then s
      else
        (case deliver c s a of
           Inl e \<Rightarrow> s
         | Inr s1 \<Rightarrow>
             (case save_alert_history c s1 [DictArg a] later of
                Inl e \<Rightarrow> s1
              | Inr s2 \<Rightarrow> s2\<lparr>last_alert_time := (last_alert_time s2)(key \<mapsto> later)\<rparr>)))"

definition check_service_status ::
  "collaborators \<Rightarrow> manager \<Rightarrow> string \<Rightarrow> bool \<Rightarrow> real \<Rightarrow> real \<Rightarrow> manager" where
  "check_service_status c s name is_healthy now later =
     (if \<not> is_healthy then
        private_send_alert c s
          \<lparr>atype = ''service_down'', service_name = Some name, avalue = None, athreshold = None\<rparr>
          now later
      else s)"

text \<open>
  \<open>check_metrics\<close>: the configuration (or the default one), the candidates, then
  \<open>_send_alert\<close> for each; any exception ends in the handler. The clock readings of the
  successive \<open>_send_alert\<close> calls are taken equal.
\<close>

definition check_metrics ::
  "collaborators \<Rightarrow> manager \<Rightarrow> (string \<rightharpoonup> real) \<Rightarrow> real \<Rightarrow> real \<Rightarrow> manager" where
  "check_metrics c s metrics now later =
     (case (case get_alert_config c of
              Inl e \<Rightarrow> Inl e
            | Inr None \<Rightarrow> create_default_config c
            | Inr (Some cfg) \<Rightarrow> Inr cfg) of
        Inl e \<Rightarrow> s
      | Inr cfg \<Rightarrow>
          (case check_metrics_alerts metrics cfg of
             Inl e \<Rightarrow> s
           | Inr alerts \<Rightarrow> foldl (\<lambda>s' a. private_send_alert c s' a now later) s alerts))"

text \<open>\<open>_check_cooldown\<close>.\<close>

definition check_cooldown :: "manager \<Rightarrow> string \<Rightarrow> real \<Rightarrow> bool" where
  "check_cooldown s alert_type now =
     (case last_alert_time s alert_type of
        None \<Rightarrow> True
      | Some t \<Rightarrow> real_of_int (cooldown_period s) \<le> now - t)"

text \<open>\<open>_send_email_alert\<close> and \<open>_send_slack_alert\<close> catch every exception themselves.\<close>

definition send_email_alert ::
  "collaborators \<Rightarrow> manager \<Rightarrow> string \<Rightarrow> string \<Rightarrow> string \<Rightarrow> string option \<Rightarrow> manager" where
  "send_email_alert c s alert_type severity message recipients =
     (case recipients of
        None \<Rightarrow> s
      | Some r \<Rightarrow>
          if smtp_ok c
          then s\<lparr>notifications := notifications s @ [EmailNotice alert_type severity message r]\<rparr>
          else s)"

definition send_slack_alert ::
  "collaborators \<Rightarrow> manager \<Rightarrow> string \<Rightarrow> string \<Rightarrow> string \<Rightarrow> manager" where
  "send_slack_alert c s alert_type severity message =
     (if slack_webhook_url c = [] then s
      else if slack_post_ok c
      then s\<lparr>notifications := notifications s @ [SlackNotice alert_type severity message]\<rparr>
      else s)"

text \<open>\<open>AlertManager.send_alert\<close>.\<close>

definition send_alert ::
  "collaborators \<Rightarrow> manager \<Rightarrow> string \<Rightarrow> string \<Rightarrow> string \<Rightarrow> real \<Rightarrow> real \<Rightarrow> manager" where
  "send_alert c s alert_type severity message now later =
     (if \<not> check_cooldown s alert_type now then s
      else
        (case get_alert_config c of
           Inl e \<Rightarrow> s
         | Inr None \<Rightarrow> s
         | Inr (Some cfg) \<Rightarrow>
             if \<not> enabled cfg then s
             else
               let s1 = (if email_enabled cfg
                         then send_email_alert c s alert_type severity message
                                (email_recipients cfg)
                         else s);
                   s2 = (if slack_enabled cfg
                         then send_slack_alert c s1 alert_type severity message
                         else s1)
               in (case save_alert_history c s2
                          [StrArg alert_type, StrArg severity, StrArg message] later of
                     Inl e \<Rightarrow> s2
                   | Inr s3 \<Rightarrow> s3\<lparr>last_alert_time := (last_alert_time s3)(alert_type \<mapsto> later)\<rparr>)))"

section \<open>Notification dispatch (monitoring-services/alert_sender.py)\<close>

text \<open>
  The settings of \<open>AlertSender\<close> come from the environment: \<open>None\<close> when unset. The
  transport says whether the SMTP exchange and the webhook post go through.
\<close>

record alert_sender =
  smtp_user :: "string option"
  smtp_password :: "string option"
  smtp_from :: "string option"
  smtp_to :: "string option"
  webhook_url :: "string option"

record transport =
  smtp_accepts :: bool
  webhook_accepts :: bool

datatype channel = Email | Slack

datatype log_entry =
    EmailSettingsIncomplete
  | EmailSent
  | EmailFailed
  | WebhookMissing
  | SlackSent
  | SlackFailed
  | UnknownAlertType
  | AllSendsFailed

datatype py_none = PyNone

record send_result =
  returned :: py_none
  delivered :: "channel list"
  logged :: "log_entry list"

text \<open>Python truth of an optional string: \<open>None\<close> and the empty string are false.\<close>

definition truthy :: "string option \<Rightarrow> bool" where
  "truthy v = (case v of None \<Rightarrow> False | Some x \<Rightarrow> x \<noteq> [])"

text \<open>
  The two templates and the fields their texts name. \<open>data\<close> is given by its keys: the
  values are only interpolated. \<open>str.format(timestamp=..., **data)\<close> raises when a named
  field is missing, and when \<open>data\<close> brings its own \<open>timestamp\<close>.
\<close>

definition templates :: "string \<Rightarrow> string list option" where
  "templates name =
     (if name = ''service_down'' then Some [''service_name'', ''timestamp'', ''details'']
      else if name = ''high_resource''
      then Some [''resource_type'', ''usage'', ''threshold'', ''timestamp'']
      else None)"

definition format_ok :: "string list \<Rightarrow> string list \<Rightarrow> bool" where
  "format_ok names data =
     (''timestamp'' \<notin> set data \<and> list_all (\<lambda>f. f = ''timestamp'' \<or> f \<in> set data) names)"

definition send_email ::
  "alert_sender \<Rightarrow> transport \<Rightarrow> string \<Rightarrow> string list \<Rightarrow> bool \<times> log_entry list" where
  "send_email sender tr template data =
     (if \<not> (truthy (smtp_user sender) \<and> truthy (smtp_password sender) \<and>
             truthy (smtp_from sender) \<and> truthy (smtp_to sender))
      then (False, [EmailSettingsIncomplete])
      else
        (case templates template of
           None \<Rightarrow> (False, [EmailFailed])
         | Some names \<Rightarrow>
             if format_ok names data \<and> smtp_accepts tr then (True, [EmailSent])
             else (False, [EmailFailed])))"

definition send_slack ::
  "alert_sender \<Rightarrow> transport \<Rightarrow> string \<Rightarrow> string list \<Rightarrow> bool \<times> log_entry list" where
  "send_slack sender tr template data =
     (if \<not> truthy (webhook_url sender) then (False, [WebhookMissing])
      else
        (case templates template of
           None \<Rightarrow> (False, [SlackFailed])
         | Some names \<Rightarrow>
             if format_ok names data \<and> webhook_accepts tr then (True, [SlackSent])
             else (False, [SlackFailed])))"

text \<open>\<open>AlertSender.send_alert\<close>: annotated \<open>-> None\<close>; every path returns \<open>None\<close>.\<close>

definition sender_send_alert ::
  "alert_sender \<Rightarrow> transport \<Rightarrow> string \<Rightarrow> string list \<Rightarrow> send_result" where
  "sender_send_alert sender tr alert_type data =
     (if templates alert_type = None
      then \<lparr>returned = PyNone, delivered = [], logged = [UnknownAlertType]\<rparr>
      else
        let (email_sent, email_log) = send_email sender tr alert_type data;
            (slack_sent, slack_log) = send_slack sender tr alert_type data
        in \<lparr>returned = PyNone,
            delivered = (if email_sent then [Email] else []) @ (if slack_sent then [Slack] else []),
            logged = email_log @ slack_log @
                     (if \<not> email_sent \<and> \<not> slack_sent then [AllSendsFailed] else [])\<rparr>)"

definition send_service_down_alert :: "alert_sender \<Rightarrow> transport \<Rightarrow> send_result" where
  "send_service_down_alert sender tr =
     sender_send_alert sender tr ''service_down'' [''service_name'', ''details'']"

definition send_resource_alert :: "alert_sender \<Rightarrow> transport \<Rightarrow> send_result" where
  "send_resource_alert sender tr =
     sender_send_alert sender tr ''high_resource'' [''resource_type'', ''usage'', ''threshold'']"

section \<open>Resolving alerts\<close>

text \<open>
  The \<open>risk_alerts\<close> table of risk-management-service/main.py (the JSON column
  \<open>metadata\<close> is not kept) and its \<open>resolve_alert\<close>. Times are clock readings.
\<close>

record risk_alert =
  ra_id :: int
  ra_user_id :: int
  ra_alert_type :: string
  ra_severity :: string
  ra_message :: string
  ra_created_at :: real
  ra_resolved_at :: "real option"

fun store_resolved_at :: "int \<Rightarrow> real \<Rightarrow> risk_alert list \<Rightarrow> risk_alert list" where
  "store_resolved_at i t [] = []"
| "store_resolved_at i t (a # as) =
     (if ra_id a = i then a\<lparr>ra_resolved_at := Some t\<rparr> # as else a # store_resolved_at i t as)"

text \<open>The body of the \<open>try\<close>: the first row with the id, the assignment, the commit.\<close>

definition risk_resolve_try ::
  "risk_alert list \<Rightarrow> int \<Rightarrow> real \<Rightarrow> bool \<Rightarrow> py_error + risk_alert list \<times> risk_alert" where
  "risk_resolve_try db alert_id utcnow commit_succeeds =
     (case find (\<lambda>a. ra_id a = alert_id) db of
        None \<Rightarrow> Inl (HTTPException 404)
      | Some alert \<Rightarrow>
          if commit_succeeds
          then Inr (store_resolved_at alert_id utcnow db, alert\<lparr>ra_resolved_at := Some utcnow\<rparr>)
          else Inl CollaboratorError)"

text \<open>
  \<open>except Exception\<close> catches whatever the body raised, the 404 included, and raises the
  500 in its place.
\<close>

definition risk_resolve_alert ::
  "risk_alert list \<Rightarrow> int \<Rightarrow> real \<Rightarrow> bool \<Rightarrow> py_error + risk_alert list \<times> risk_alert" where
  "risk_resolve_alert db alert_id utcnow commit_succeeds =
     (case risk_resolve_try db alert_id utcnow commit_succeeds of
        Inl e \<Rightarrow> Inl (HTTPException 500)
      | Inr r \<Rightarrow> Inr r)"

text \<open>The \<open>alerts\<close> table of monitoring-services/main.py and its \<open>resolve_alert\<close>.\<close>

record monitoring_alert =
  ma_id :: int
  ma_service :: string
  ma_severity :: string
  ma_message :: string
  ma_timestamp :: real
  ma_resolved :: bool

datatype resolve_reply = AlertResolvedMessage int

fun store_resolved :: "int \<Rightarrow> monitoring_alert list \<Rightarrow> monitoring_alert list" where
  "store_resolved i [] = []"
| "store_resolved i (a # as) =
     (if ma_id a = i then a\<lparr>ma_resolved := True\<rparr> # as else a # store_resolved i as)"

definition monitoring_resolve_try ::
  "monitoring_alert list \<Rightarrow> int \<Rightarrow> bool \<Rightarrow> py_error + monitoring_alert list \<times> resolve_reply" where
  "monitoring_resolve_try db alert_id commit_succeeds =
     (case find (\<lambda>a. ma_id a = alert_id) db of
        Some alert \<Rightarrow>
          if commit_succeeds then Inr (store_resolved alert_id db, AlertResolvedMessage alert_id)
          else Inl CollaboratorError
      | None \<Rightarrow> Inl (HTTPException 404))"

definition monitoring_resolve_alert ::
  "monitoring_alert list \<Rightarrow> int \<Rightarrow> bool \<Rightarrow> py_error + monitoring_alert list \<times> resolve_reply" where
  "monitoring_resolve_alert db alert_id commit_succeeds =
     (case monitoring_resolve_try db alert_id commit_succeeds of
        Inl e \<Rightarrow> Inl (HTTPException 500)
      | Inr r \<Rightarrow> Inr r)"


section \<open>The specification's formulas\<close>

text \<open>
  The drawdown as the specification words it, by position in the series: the running
  product of \<open>1 + r\<close>, the greatest running product so far, and their relative distance.
  \<open>value64\<close> reads the real of a finite float64.
\<close>

fun finite64 :: "float64 \<Rightarrow> bool" where
  "finite64 (Finite x) = True"
| "finite64 x = False"

fun value64 :: "float64 \<Rightarrow> real" where
  "value64 (Finite x) = x"
| "value64 x = 0"

definition spec_cumulative :: "arithmetic \<Rightarrow> float64 list \<Rightarrow> nat \<Rightarrow> float64" where
  "spec_cumulative A returns i =
     (case map (\<lambda>r. plus64 A (Finite 1) r) (take (Suc i) returns) of
        [] \<Rightarrow> Finite 1
      | f # fs \<Rightarrow> foldl (times64 A) f fs)"

definition spec_running_max :: "arithmetic \<Rightarrow> float64 list \<Rightarrow> nat \<Rightarrow> float64" where
  "spec_running_max A returns i =
     Finite (Max ((\<lambda>j. value64 (spec_cumulative A returns j)) ` {..i}))"

definition spec_drawdown :: "arithmetic \<Rightarrow> float64 list \<Rightarrow> nat \<Rightarrow> float64" where
  "spec_drawdown A returns i =
     divide64 A (minus64 A (spec_cumulative A returns i) (spec_running_max A returns i))
       (spec_running_max A returns i)"

section \<open>Properties of float64 arithmetic\<close>

text \<open>
  What the drawdown needs of the arithmetic, each a property of IEEE 754 operations
  rounded to nearest: a finite result is a float64; a finite product has finite factors;
  rounding keeps the order, so \<open>1 + r\<close> is positive for a float64 \<open>r > -1\<close> and at least 1
  for \<open>r > 0\<close>, a product of non-negative factors is non-negative, and a positive value
  times a factor of at least 1 does not decrease; the difference of \<open>0 \<le> c \<le> m\<close> lies in
  \<open>[-m, 0]\<close> and is \<open>0\<close> for \<open>c = m\<close>; the quotient of such a difference by \<open>m\<close> is finite,
  not positive, and \<open>0\<close> for the difference \<open>0\<close>.
\<close>

definition ieee_arithmetic :: "arithmetic \<Rightarrow> bool" where
  "ieee_arithmetic A =
     ((\<forall>r f. is_double A r \<and> plus64 A (Finite 1) (Finite r) = Finite f \<longrightarrow>
         is_double A f \<and> (- 1 < r \<longrightarrow> 0 < f) \<and> (0 < r \<longrightarrow> 1 \<le> f))
    \<and> (\<forall>x y z. times64 A x y = Finite z \<longrightarrow> finite64 x \<and> finite64 y \<and> is_double A z)
    \<and> (\<forall>c f z. times64 A (Finite c) (Finite f) = Finite z \<and> 0 \<le> c \<and> 0 < f \<longrightarrow>
         0 \<le> z \<and> (0 < c \<and> 1 \<le> f \<longrightarrow> c \<le> z))
    \<and> (\<forall>c m. is_double A c \<and> is_double A m \<and> 0 \<le> c \<and> c \<le> m \<longrightarrow>
         (\<exists>d. minus64 A (Finite c) (Finite m) = Finite d \<and> is_double A d \<and>
              - m \<le> d \<and> d \<le> 0 \<and> (c = m \<longrightarrow> d = 0)))
    \<and> (\<forall>d m. is_double A d \<and> is_double A m \<and> - m \<le> d \<and> d \<le> 0 \<and> 0 < m \<longrightarrow>
         (\<exists>e. divide64 A (Finite d) (Finite m) = Finite e \<and> e \<le> 0 \<and> (d = 0 \<longrightarrow> e = 0))))"

section \<open>An arithmetic for evaluation\<close>

text \<open>
  The arithmetic \<open>ideal\<close> computes without rounding and overflows beyond the largest
  float64. It gives the float64 result wherever no intermediate result is rounded: where
  each is a float64 or, at \<open>2^1024\<close> or more in magnitude, overflows. The inputs evaluated
  with it below are of that kind, but for one sum that is discussed where it occurs.
\<close>

definition largest_double :: real where
  "largest_double = (2 - 1 / 2 ^ 52) * 2 ^ 1023"

definition bounded :: "real \<Rightarrow> float64" where
  "bounded x =
     (if largest_double < x then PosInf else if x < - largest_double then NegInf else Finite x)"

fun negate64 :: "float64 \<Rightarrow> float64" where
  "negate64 (Finite a) = Finite (- a)"
| "negate64 PosInf = NegInf"
| "negate64 NegInf = PosInf"
| "negate64 NaN = NaN"

fun ideal_plus :: "float64 \<Rightarrow> float64 \<Rightarrow> float64" where
  "ideal_plus NaN b = NaN"
| "ideal_plus a NaN = NaN"
| "ideal_plus (Finite a) (Finite b) = bounded (a + b)"
| "ideal_plus PosInf NegInf = NaN"
| "ideal_plus NegInf PosInf = NaN"
| "ideal_plus PosInf b = PosInf"
| "ideal_plus a PosInf = PosInf"
| "ideal_plus NegInf b = NegInf"
| "ideal_plus a NegInf = NegInf"

definition ideal_minus :: "float64 \<Rightarrow> float64 \<Rightarrow> float64" where
  "ideal_minus a b = ideal_plus a (negate64 b)"

fun ideal_times :: "float64 \<Rightarrow> float64 \<Rightarrow> float64" where
  "ideal_times NaN b = NaN"
| "ideal_times a NaN = NaN"
| "ideal_times (Finite a) (Finite b) = bounded (a * b)"
| "ideal_times (Finite a) PosInf = (if a = 0 then NaN else if 0 < a then PosInf else NegInf)"
| "ideal_times (Finite a) NegInf = (if a = 0 then NaN else if 0 < a then NegInf else PosInf)"
| "ideal_times PosInf (Finite b) = (if b = 0 then NaN else if 0 < b then PosInf else NegInf)"
| "ideal_times NegInf (Finite b) = (if b = 0 then NaN else if 0 < b then NegInf else PosInf)"
| "ideal_times PosInf PosInf = PosInf"
| "ideal_times PosInf NegInf = NegInf"
| "ideal_times NegInf PosInf = NegInf"
| "ideal_times NegInf NegInf = PosInf"

definition ideal_divide :: "float64 \<Rightarrow> float64 \<Rightarrow> float64" where
  "ideal_divide a b = (case np_divide a b of Finite q \<Rightarrow> bounded q | z \<Rightarrow> z)"

fun sqrt64 :: "float64 \<Rightarrow> float64" where
  "sqrt64 (Finite a) = (if a < 0 then NaN else Finite (sqrt a))"
| "sqrt64 PosInf = PosInf"
| "sqrt64 NegInf = NaN"
| "sqrt64 NaN = NaN"

definition ideal_mean :: "float64 list \<Rightarrow> float64" where
  "ideal_mean xs =
     (if xs = [] then NaN
      else ideal_divide (foldl ideal_plus (Finite 0) xs) (Finite (real (length xs))))"

definition ideal_std :: "float64 list \<Rightarrow> float64" where
  "ideal_std xs =
     (let m = ideal_mean xs;
          squares = map (\<lambda>x. ideal_times (ideal_minus x m) (ideal_minus x m)) xs
      in sqrt64 (ideal_mean squares))"

definition ideal :: arithmetic where
  "ideal =
     \<lparr>is_double = (\<lambda>x. \<bar>x\<bar> \<le> largest_double),
      plus64 = ideal_plus, minus64 = ideal_minus, times64 = ideal_times,
      divide64 = ideal_divide, mean64 = ideal_mean, std64 = ideal_std\<rparr>"

section \<open>Auxiliary predicates\<close>

text \<open>An alert whose recorded value is the observed one and lies strictly above its threshold.\<close>

definition strictly_exceeds :: "(string \<rightharpoonup> real) \<Rightarrow> alert \<Rightarrow> bool" where
  "strictly_exceeds metrics x =
     (\<exists>v t. avalue x = Some v \<and> athreshold x = Some t \<and> metrics (atype x) = Some v \<and> t < v)"

text \<open>
  The configuration attribute that \<open>check_metrics\<close> compares each metric with.
\<close>

definition threshold_attribute :: "string \<Rightarrow> string" where
  "threshold_attribute metric =
     (if metric = ''cpu_usage'' then ''cpu_threshold''
      else if metric = ''memory_usage'' then ''memory_threshold''
      else if metric = ''disk_usage'' then ''disk_threshold''
      else if metric = ''network_in'' then ''network_in_threshold''
      else if metric = ''network_out'' then ''network_out_threshold''
      else [])"

section \<open>Threshold evaluation is strict\<close>

lemma check_one_keeps:
  assumes "check_one metrics k limits a missing k alerts = Inr alerts'"
    and "\<forall>x \<in> set alerts. Q x"
    and "\<And>v t. metrics k = Some v \<Longrightarrow> limits a = Some t \<Longrightarrow> t < v \<Longrightarrow> Q (resource_alert k v t)"
  shows "\<forall>x \<in> set alerts'. Q x"
  using assms by (auto simp: check_one_def split: option.splits if_splits)

lemma then_check_Inr:
  "then_check r f = Inr ys \<Longrightarrow> \<exists>xs. r = Inr xs \<and> f xs = Inr ys"
  by (cases r) (simp_all add: then_check_def)

lemma strictly_exceeds_resource_alert:
  "metrics k = Some v \<Longrightarrow> t < v \<Longrightarrow> strictly_exceeds metrics (resource_alert k v t)"
  by (simp add: strictly_exceeds_def resource_alert_def)

lemma check_thresholds_exceeds:
  assumes "check_thresholds thresholds metrics = Inr alerts"
  shows "\<forall>x \<in> set alerts. strictly_exceeds metrics x \<and> thresholds (atype x) = athreshold x"
proof -
  let ?Q = "\<lambda>x. strictly_exceeds metrics x \<and> thresholds (atype x) = athreshold x"
  from assms obtain a1 a2 where
    1: "check_one metrics ''cpu'' thresholds ''cpu'' KeyError ''cpu'' [] = Inr a1" and
    2: "check_one metrics ''memory'' thresholds ''memory'' KeyError ''memory'' a1 = Inr a2" and
    3: "check_one metrics ''disk'' thresholds ''disk'' KeyError ''disk'' a2 = Inr alerts"
    unfolding check_thresholds_def by (blast dest: then_check_Inr)
  have q: "?Q (resource_alert k v t)"
    if "metrics k = Some v" "thresholds k = Some t" "t < v" for k v t
    using that by (simp add: strictly_exceeds_resource_alert) (simp add: resource_alert_def)
  have "\<forall>x \<in> set a1. ?Q x" by (rule check_one_keeps [OF 1]) (simp_all add: q)
  then have "\<forall>x \<in> set a2. ?Q x" by (rule check_one_keeps [OF 2]) (simp add: q)
  then show ?thesis by (rule check_one_keeps [OF 3]) (simp add: q)
qed

lemma check_metrics_alerts_exceeds:
  assumes "check_metrics_alerts metrics cfg = Inr alerts"
  shows "\<forall>x \<in> set alerts. strictly_exceeds metrics x
           \<and> float_attr cfg (threshold_attribute (atype x)) = athreshold x"
proof -
  define Q where "Q = (\<lambda>x. strictly_exceeds metrics x
                \<and> float_attr cfg (threshold_attribute (atype x)) = athreshold x)"
  from assms obtain a1 a2 a3 a4 where
    1: "check_one metrics ''cpu_usage'' (float_attr cfg) ''cpu_threshold'' AttributeError
          ''cpu_usage'' [] = Inr a1" and
    2: "check_one metrics ''memory_usage'' (float_attr cfg) ''memory_threshold'' AttributeError
          ''memory_usage'' a1 = Inr a2" and
    3: "check_one metrics ''disk_usage'' (float_attr cfg) ''disk_threshold'' AttributeError
          ''disk_usage'' a2 = Inr a3" and
    4: "check_one metrics ''network_in'' (float_attr cfg) ''network_in_threshold'' AttributeError
          ''network_in'' a3 = Inr a4" and
    5: "check_one metrics ''network_out'' (float_attr cfg) ''network_out_threshold'' AttributeError
          ''network_out'' a4 = Inr alerts"
    unfolding check_metrics_alerts_def by (blast dest: then_check_Inr)
  have q: "Q (resource_alert k v t)"
    if "metrics k = Some v" "float_attr cfg (threshold_attribute k) = Some t" "t < v" for k v t
    unfolding Q_def using that
    by (simp add: strictly_exceeds_resource_alert) (simp add: resource_alert_def)
  have "\<forall>x \<in> set a1. Q x"
    by (rule check_one_keeps [OF 1]) (auto intro: q simp: threshold_attribute_def)
  then have "\<forall>x \<in> set a2. Q x"
    by (rule check_one_keeps [OF 2]) (auto intro: q simp: threshold_attribute_def)
  then have "\<forall>x \<in> set a3. Q x"
    by (rule check_one_keeps [OF 3]) (auto intro: q simp: threshold_attribute_def)
  then have "\<forall>x \<in> set a4. Q x"
    by (rule check_one_keeps [OF 4]) (auto intro: q simp: threshold_attribute_def)
  then have "\<forall>x \<in> set alerts. Q x"
    by (rule check_one_keeps [OF 5]) (auto intro: q simp: threshold_attribute_def)
  then show ?thesis unfolding Q_def .
qed

text \<open>
  Claim C2. Every candidate that \<open>check_thresholds\<close> or \<open>check_metrics\<close> builds carries
  the observed value of its metric and the threshold configured for that metric, and the
  value lies strictly above the threshold; a metric whose value equals its configured
  threshold gets no candidate.
\<close>

theorem candidates_strictly_exceed:
  "(check_thresholds thresholds metrics = Inr alerts \<longrightarrow>
      (\<forall>x \<in> set alerts. \<exists>v t. avalue x = Some v \<and> athreshold x = Some t \<and>
          metrics (atype x) = Some v \<and> thresholds (atype x) = Some t \<and> t < v)
      \<and> (\<forall>k v. metrics k = Some v \<and> thresholds k = Some v \<longrightarrow>
            (\<forall>x \<in> set alerts. atype x \<noteq> k)))
   \<and> (check_metrics_alerts observed cfg = Inr alerts' \<longrightarrow>
      (\<forall>x \<in> set alerts'. \<exists>v t. avalue x = Some v \<and> athreshold x = Some t \<and>
          observed (atype x) = Some v \<and>
          float_attr cfg (threshold_attribute (atype x)) = Some t \<and> t < v)
      \<and> (\<forall>k v. observed k = Some v \<and> float_attr cfg (threshold_attribute k) = Some v \<longrightarrow>
            (\<forall>x \<in> set alerts'. atype x \<noteq> k)))"
proof (intro conjI impI)
  assume a: "check_thresholds thresholds metrics = Inr alerts"
  show "\<forall>x \<in> set alerts. \<exists>v t. avalue x = Some v \<and> athreshold x = Some t \<and>
          metrics (atype x) = Some v \<and> thresholds (atype x) = Some t \<and> t < v"
    using check_thresholds_exceeds [OF a] by (fastforce simp: strictly_exceeds_def)
  show "\<forall>k v. metrics k = Some v \<and> thresholds k = Some v \<longrightarrow>
          (\<forall>x \<in> set alerts. atype x \<noteq> k)"
    using check_thresholds_exceeds [OF a] by (fastforce simp: strictly_exceeds_def)
next
  assume a: "check_metrics_alerts observed cfg = Inr alerts'"
  show "\<forall>x \<in> set alerts'. \<exists>v t. avalue x = Some v \<and> athreshold x = Some t \<and>
          observed (atype x) = Some v \<and>
          float_attr cfg (threshold_attribute (atype x)) = Some t \<and> t < v"
    using check_metrics_alerts_exceeds [OF a] by (fastforce simp: strictly_exceeds_def)
  show "\<forall>k v. observed k = Some v \<and> float_attr cfg (threshold_attribute k) = Some v \<longrightarrow>
          (\<forall>x \<in> set alerts'. atype x \<noteq> k)"
    using check_metrics_alerts_exceeds [OF a] by (fastforce simp: strictly_exceeds_def)
qed

lemma check_thresholds_example:
  "check_thresholds [''cpu'' \<mapsto> 80, ''memory'' \<mapsto> 85, ''disk'' \<mapsto> 90]
     [''cpu'' \<mapsto> 85, ''memory'' \<mapsto> 85, ''disk'' \<mapsto> 50]
   = Inr [resource_alert ''cpu'' 85 80]"
  by (simp add: check_thresholds_def then_check_def check_one_def)

lemma check_metrics_alerts_example:
  "check_metrics_alerts
     [''cpu_usage'' \<mapsto> 85, ''memory_usage'' \<mapsto> 85, ''disk_usage'' \<mapsto> 50,
      ''network_in'' \<mapsto> 0, ''network_out'' \<mapsto> 0]
     \<lparr>enabled = True, email_enabled = True, slack_enabled = True, email_recipients = None,
      float_attr = [''cpu_threshold'' \<mapsto> 80, ''memory_threshold'' \<mapsto> 85,
        ''disk_threshold'' \<mapsto> 90, ''network_in_threshold'' \<mapsto> 1000000000,
        ''network_out_threshold'' \<mapsto> 1000000000]\<rparr>
   = Inr [resource_alert ''cpu_usage'' 85 80]"
  by (simp add: check_metrics_alerts_def then_check_def check_one_def)

theorem candidates_strictly_exceed_witness:
  "check_thresholds [''cpu'' \<mapsto> 80, ''memory'' \<mapsto> 85, ''disk'' \<mapsto> 90]
     [''cpu'' \<mapsto> 85, ''memory'' \<mapsto> 85, ''disk'' \<mapsto> 50]
     = Inr [resource_alert ''cpu'' 85 80]
   \<and> atype (resource_alert ''cpu'' 85 80) \<noteq> ''memory''
   \<and> check_metrics_alerts
     [''cpu_usage'' \<mapsto> 85, ''memory_usage'' \<mapsto> 85, ''disk_usage'' \<mapsto> 50,
      ''network_in'' \<mapsto> 0, ''network_out'' \<mapsto> 0]
     \<lparr>enabled = True, email_enabled = True, slack_enabled = True, email_recipients = None,
      float_attr = [''cpu_threshold'' \<mapsto> 80, ''memory_threshold'' \<mapsto> 85,
        ''disk_threshold'' \<mapsto> 90, ''network_in_threshold'' \<mapsto> 1000000000,
        ''network_out_threshold'' \<mapsto> 1000000000]\<rparr>
     = Inr [resource_alert ''cpu_usage'' 85 80]
   \<and> athreshold (resource_alert ''cpu_usage'' 85 80)
       = float_attr
           \<lparr>enabled = True, email_enabled = True, slack_enabled = True, email_recipients = None,
            float_attr = [''cpu_threshold'' \<mapsto> 80, ''memory_threshold'' \<mapsto> 85,
              ''disk_threshold'' \<mapsto> 90, ''network_in_threshold'' \<mapsto> 1000000000,
              ''network_out_threshold'' \<mapsto> 1000000000]\<rparr>
           (threshold_attribute ''cpu_usage'')
   \<and> atype (resource_alert ''cpu_usage'' 85 80) \<noteq> ''memory_usage''"
  using candidates_strictly_exceed
    [of "[''cpu'' \<mapsto> 80, ''memory'' \<mapsto> 85, ''disk'' \<mapsto> 90]"
        "[''cpu'' \<mapsto> 85, ''memory'' \<mapsto> 85, ''disk'' \<mapsto> 50]"
        "[resource_alert ''cpu'' 85 80]"
        "[''cpu_usage'' \<mapsto> 85, ''memory_usage'' \<mapsto> 85, ''disk_usage'' \<mapsto> 50,
          ''network_in'' \<mapsto> 0, ''network_out'' \<mapsto> 0]"
        "\<lparr>enabled = True, email_enabled = True, slack_enabled = True, email_recipients = None,
          float_attr = [''cpu_threshold'' \<mapsto> 80, ''memory_threshold'' \<mapsto> 85,
            ''disk_threshold'' \<mapsto> 90, ''network_in_threshold'' \<mapsto> 1000000000,
            ''network_out_threshold'' \<mapsto> 1000000000]\<rparr>"
        "[resource_alert ''cpu_usage'' 85 80]"]
    check_thresholds_example check_metrics_alerts_example
  by (simp add: resource_alert_def threshold_attribute_def)

section \<open>Sharpe and Sortino ratios\<close>

text \<open>
  Claim C3. The claim says that a constant series such as \<open>[0.01, 0.01, 0.01]\<close> has Sharpe
  ratio \<open>0\<close>. \<open>calculate_sharpe_ratio\<close> has no test for a zero standard deviation: it
  divides the mean \<open>0.01\<close> by \<open>0\<close>, and the numpy division gives \<open>inf\<close>.
\<close>

theorem sharpe_constant_series_is_inf:
  "calculate_sharpe_ratio [1 / 100, 1 / 100, 1 / 100] 0 = PosInf"
  by (simp add: calculate_sharpe_ratio_def np_mean_def np_std_def)

lemma sharpe_constant_series_at_risk_free_rate:
  "calculate_sharpe_ratio [1 / 100, 1 / 100, 1 / 100] (1 / 100) = NaN"
  by (simp add: calculate_sharpe_ratio_def np_mean_def np_std_def)


section \<open>Evaluating with the arithmetic without rounding\<close>

lemma two_power_1023_large: "(1000000::real) \<le> 2 ^ 1023"
proof -
  have "(1000000::real) \<le> 2 ^ 20" by simp
  also have "(2::real) ^ 20 \<le> 2 ^ 1023" by (rule power_increasing) simp_all
  finally show ?thesis .
qed

lemma largest_double_ge: "2 ^ 1023 \<le> largest_double"
proof -
  have "(1::real) \<le> 2 - 1 / 2 ^ 52" by simp
  then have "1 * (2::real) ^ 1023 \<le> (2 - 1 / 2 ^ 52) * 2 ^ 1023"
    by (rule mult_right_mono) simp
  then show ?thesis by (simp add: largest_double_def)
qed

lemma largest_double_less: "largest_double < 2 ^ 1024"
proof -
  have "(2 - 1 / 2 ^ 52) * (2::real) ^ 1023 < 2 * 2 ^ 1023"
    by (rule mult_strict_right_mono) simp_all
  then show ?thesis by (simp add: largest_double_def)
qed

lemma bounded_small: "\<bar>x\<bar> \<le> 1000000 \<Longrightarrow> bounded x = Finite x"
  using two_power_1023_large largest_double_ge by (simp add: bounded_def abs_le_iff)

lemma bounded_Finite: "\<bar>x\<bar> \<le> largest_double \<Longrightarrow> bounded x = Finite x"
  by (simp add: bounded_def abs_le_iff)

lemma bounded_PosInf: "2 ^ 1024 \<le> x \<Longrightarrow> bounded x = PosInf"
  using largest_double_less by (simp add: bounded_def)

lemmas ideal_simps = ideal_def ideal_minus_def ideal_divide_def ideal_mean_def ideal_std_def
  bounded_small lt64_def

section \<open>Sortino ratio\<close>

lemma sortino_unfold:
  "calculate_sortino_ratio A returns rf =
     (if filter (\<lambda>e. lt64 e (Finite 0)) (map (\<lambda>r. minus64 A r rf) returns) = [] then PyInt 0
      else PyFloat (divide64 A (mean64 A (map (\<lambda>r. minus64 A r rf) returns))
             (std64 A (filter (\<lambda>e. lt64 e (Finite 0)) (map (\<lambda>r. minus64 A r rf) returns)))))"
  unfolding calculate_sortino_ratio_def Let_def length_0_conv ..

text \<open>
  Claim C9. With no negative excess return \<open>calculate_sortino_ratio\<close> returns \<open>0\<close>;
  otherwise it returns the mean of the excess returns divided by the standard deviation
  of the negative excess returns only. This holds for every float64 arithmetic.
\<close>

theorem sortino_ratio_cases:
  "(let excess = map (\<lambda>r. minus64 A r risk_free_rate) returns;
        downside = filter (\<lambda>e. lt64 e (Finite 0)) excess
    in ((\<forall>e \<in> set excess. \<not> lt64 e (Finite 0)) \<longrightarrow>
          calculate_sortino_ratio A returns risk_free_rate = PyInt 0)
     \<and> ((\<exists>e \<in> set excess. lt64 e (Finite 0)) \<longrightarrow>
          calculate_sortino_ratio A returns risk_free_rate =
            PyFloat (divide64 A (mean64 A excess) (std64 A downside))))"
proof -
  define excess where "excess = map (\<lambda>r. minus64 A r risk_free_rate) returns"
  define downside where "downside = filter (\<lambda>e. lt64 e (Finite 0)) excess"
  have u: "calculate_sortino_ratio A returns risk_free_rate =
     (if downside = [] then PyInt 0
      else PyFloat (divide64 A (mean64 A excess) (std64 A downside)))"
    unfolding downside_def excess_def by (rule sortino_unfold)
  have none: "downside = []" if "\<forall>e \<in> set excess. \<not> lt64 e (Finite 0)"
    using that by (simp add: downside_def filter_empty_conv)
  have some: "downside \<noteq> []" if "\<exists>e \<in> set excess. lt64 e (Finite 0)"
    using that by (auto simp: downside_def filter_empty_conv)
  show ?thesis
    unfolding Let_def excess_def [symmetric] downside_def [symmetric]
    using none some by (simp add: u)
qed

lemma sortino_example_flat:
  "calculate_sortino_ratio ideal [Finite (1 / 4), Finite (1 / 4), Finite (1 / 4)] (Finite 0) = PyInt 0"
  by (simp add: calculate_sortino_ratio_def ideal_simps)

lemma sortino_example_downside:
  "calculate_sortino_ratio ideal [Finite 1, Finite (- 1), Finite (- 3)] (Finite 0)
     = PyFloat (Finite (- 1))"
  by (simp add: calculate_sortino_ratio_def ideal_simps)

theorem sortino_ratio_cases_witness:
  "calculate_sortino_ratio ideal [Finite (1 / 4), Finite (1 / 4), Finite (1 / 4)] (Finite 0) = PyInt 0
   \<and> calculate_sortino_ratio ideal [Finite 1, Finite (- 1), Finite (- 3)] (Finite 0)
       = PyFloat (Finite (- 1))"
  using sortino_ratio_cases [of ideal "Finite 0" "[Finite (1 / 4), Finite (1 / 4), Finite (1 / 4)]"]
        sortino_ratio_cases [of ideal "Finite 0" "[Finite 1, Finite (- 1), Finite (- 3)]"]
        sortino_example_flat sortino_example_downside
  by simp

section \<open>The cooldown\<close>

text \<open>
  Claim C10. A candidate that the cooldown test suppresses leaves the manager as it was,
  in \<open>_send_alert\<close> and in \<open>send_alert\<close>: no notification goes out, no history row is
  written and the stored time of the key stays.
\<close>

theorem suppressed_alert_changes_nothing:
  assumes "last_alert_time s key = Some t"
    and "now - t < real_of_int (cooldown_period s)"
  shows "(alert_key a = key \<longrightarrow> private_send_alert c s a now later = s)
       \<and> send_alert c s key severity message now later = s"
  using assms
  by (simp add: private_send_alert_def send_alert_def check_cooldown_def Let_def)

theorem suppressed_alert_changes_nothing_witness:
  "last_alert_time \<lparr>cooldown_period = 300, last_alert_time = [''cpu_usage_'' \<mapsto> 0],
       notifications = [], history = []\<rparr> ''cpu_usage_'' = Some 0
   \<and> (10::real) - 0 < real_of_int 300
   \<and> alert_key (resource_alert ''cpu_usage'' 85 80) = ''cpu_usage_''
   \<and> private_send_alert
        \<lparr>sender_returns = True, db_session = True, config_row = Inr None,
         default_config = Inl TypeError, commit_ok = True, smtp_ok = True,
         slack_webhook_url = ''https://hooks'', slack_post_ok = True\<rparr>
        \<lparr>cooldown_period = 300, last_alert_time = [''cpu_usage_'' \<mapsto> 0],
          notifications = [], history = []\<rparr> (resource_alert ''cpu_usage'' 85 80) 10 11
      = \<lparr>cooldown_period = 300, last_alert_time = [''cpu_usage_'' \<mapsto> 0],
          notifications = [], history = []\<rparr>
   \<and> send_alert
        \<lparr>sender_returns = True, db_session = True, config_row = Inr None,
         default_config = Inl TypeError, commit_ok = True, smtp_ok = True,
         slack_webhook_url = ''https://hooks'', slack_post_ok = True\<rparr>
        \<lparr>cooldown_period = 300, last_alert_time = [''cpu_usage_'' \<mapsto> 0],
          notifications = [], history = []\<rparr> ''cpu_usage_'' ''warning'' ''high'' 10 11
      = \<lparr>cooldown_period = 300, last_alert_time = [''cpu_usage_'' \<mapsto> 0],
          notifications = [], history = []\<rparr>"
  using suppressed_alert_changes_nothing
    [of "\<lparr>cooldown_period = 300, last_alert_time = [''cpu_usage_'' \<mapsto> 0],
          notifications = [], history = []\<rparr>" "''cpu_usage_''" 0 10
        "resource_alert ''cpu_usage'' 85 80"
        "\<lparr>sender_returns = True, db_session = True, config_row = Inr None,
         default_config = Inl TypeError, commit_ok = True, smtp_ok = True,
         slack_webhook_url = ''https://hooks'', slack_post_ok = True\<rparr>"
        11 "''warning''" "''high''"]
  by (simp add: alert_key_def resource_alert_def)

text \<open>
  In \<open>_send_alert\<close> the call \<open>self._save_alert_history(alert)\<close> passes one argument to
  the three-parameter method and raises, so the assignment to \<open>last_alert_time\<close> that
  follows it is never reached.
\<close>

lemma save_alert_history_one_argument: "save_alert_history c s [x] t = Inl TypeError"
  by (simp add: save_alert_history_def)

lemma private_send_alert_never_records:
  "last_alert_time (private_send_alert c s a now later) = last_alert_time s"
  by (auto simp: private_send_alert_def Let_def save_alert_history_def deliver_def
      split: option.splits sum.splits if_splits)

lemma foldl_private_send_alert_never_records:
  "last_alert_time (foldl (\<lambda>s' a. private_send_alert c s' a now later) s alerts)
     = last_alert_time s"
  by (induction alerts arbitrary: s) (simp_all add: private_send_alert_never_records)

lemma check_metrics_never_records:
  "last_alert_time (check_metrics c s metrics now later) = last_alert_time s"
  by (simp add: check_metrics_def foldl_private_send_alert_never_records
      split: sum.splits option.splits)

lemma check_service_status_never_records:
  "last_alert_time (check_service_status c s name is_healthy now later) = last_alert_time s"
  by (simp add: check_service_status_def private_send_alert_never_records)

text \<open>The sibling \<open>send_alert\<close> does record the time of an admitted alert.\<close>

lemma send_alert_records_admission:
  assumes "check_cooldown s alert_type now"
    and "db_session c" and "config_row c = Inr (Some cfg)" and "enabled cfg"
  shows "last_alert_time (send_alert c s alert_type severity message now later) alert_type
           = Some later"
  using assms
  by (simp add: send_alert_def get_alert_config_def save_alert_history_def Let_def)

text \<open>
  Claim C1. The claim says that an admission sets the stored time, so that two breaches
  within the window give one admitted alert. Run on \<open>_send_alert\<close> with a cooldown of 300
  seconds: a breach at time 0 and the same breach at time 10 are both sent, and no time
  is stored.
\<close>

theorem private_send_alert_sends_twice:
  "private_send_alert
     \<lparr>sender_returns = True, db_session = True, config_row = Inr None,
      default_config = Inl TypeError, commit_ok = True, smtp_ok = True,
      slack_webhook_url = ''https://hooks'', slack_post_ok = True\<rparr>
     (private_send_alert
        \<lparr>sender_returns = True, db_session = True, config_row = Inr None,
         default_config = Inl TypeError, commit_ok = True, smtp_ok = True,
         slack_webhook_url = ''https://hooks'', slack_post_ok = True\<rparr>
        \<lparr>cooldown_period = 300, last_alert_time = Map.empty, notifications = [], history = []\<rparr>
        (resource_alert ''cpu_usage'' 85 80) 0 0)
     (resource_alert ''cpu_usage'' 85 80) 10 10
   = \<lparr>cooldown_period = 300, last_alert_time = Map.empty,
      notifications = [ResourceNotice ''cpu_usage'' 85 80, ResourceNotice ''cpu_usage'' 85 80],
      history = []\<rparr>"
  by (simp add: private_send_alert_def Let_def save_alert_history_def deliver_def
        alert_key_def resource_alert_def)

section \<open>Resolving an alert\<close>

lemma find_row_None: "find (\<lambda>a. f a = i) db = None \<longleftrightarrow> (\<forall>a \<in> set db. f a \<noteq> i)"
  by (auto simp: find_None_iff)

lemma find_row_Some: "find (\<lambda>a. f a = i) db = Some a \<Longrightarrow> a \<in> set db \<and> f a = i"
  by (induction db) (auto split: if_splits)

lemma find_store_resolved_at:
  "find (\<lambda>a. ra_id a = i) db = Some a \<Longrightarrow>
     find (\<lambda>a. ra_id a = i) (store_resolved_at i t db) = Some (a\<lparr>ra_resolved_at := Some t\<rparr>)"
  by (induction db) (auto split: if_splits)

lemma length_store_resolved_at: "length (store_resolved_at i t db) = length db"
  by (induction db) simp_all

lemma filter_store_resolved_at:
  "k \<noteq> i \<Longrightarrow> filter (\<lambda>r. ra_id r = k) (store_resolved_at i t db) = filter (\<lambda>r. ra_id r = k) db"
  by (induction db) simp_all

lemma find_store_resolved:
  "find (\<lambda>b. ma_id b = j) db = Some b \<Longrightarrow>
     find (\<lambda>b. ma_id b = j) (store_resolved j db) = Some (b\<lparr>ma_resolved := True\<rparr>)"
  by (induction db) (auto split: if_splits)

lemma length_store_resolved: "length (store_resolved j db) = length db"
  by (induction db) simp_all

lemma filter_store_resolved:
  "k \<noteq> j \<Longrightarrow> filter (\<lambda>r. ma_id r = k) (store_resolved j db) = filter (\<lambda>r. ma_id r = k) db"
  by (induction db) simp_all

lemma store_resolved_twice: "store_resolved j (store_resolved j db) = store_resolved j db"
  by (induction db) auto

lemma risk_resolve_found:
  assumes "\<exists>a \<in> set db. ra_id a = i"
  shows "\<exists>a db'. find (\<lambda>a. ra_id a = i) db = Some a
           \<and> risk_resolve_alert db i now True = Inr (db', a\<lparr>ra_resolved_at := Some now\<rparr>)
           \<and> find (\<lambda>a. ra_id a = i) db' = Some (a\<lparr>ra_resolved_at := Some now\<rparr>)
           \<and> length db' = length db
           \<and> (\<forall>k. k \<noteq> i \<longrightarrow> filter (\<lambda>r. ra_id r = k) db' = filter (\<lambda>r. ra_id r = k) db)"
proof (cases "find (\<lambda>a. ra_id a = i) db")
  case None
  with assms show ?thesis by (simp add: find_row_None)
next
  case (Some a)
  then have "risk_resolve_alert db i now True
               = Inr (store_resolved_at i now db, a\<lparr>ra_resolved_at := Some now\<rparr>)"
    by (simp add: risk_resolve_alert_def risk_resolve_try_def)
  with Some show ?thesis
    by (intro exI [of _ a] exI [of _ "store_resolved_at i now db"])
       (simp add: find_store_resolved_at length_store_resolved_at filter_store_resolved_at)
qed

lemma risk_resolve_fails_iff:
  "(\<exists>e. risk_resolve_alert db i now True = Inl e) \<longleftrightarrow> (\<forall>a \<in> set db. ra_id a \<noteq> i)"
proof (cases "find (\<lambda>a. ra_id a = i) db")
  case None
  then show ?thesis
    by (simp add: risk_resolve_alert_def risk_resolve_try_def find_row_None [symmetric])
next
  case (Some a)
  then show ?thesis
    by (auto simp: risk_resolve_alert_def risk_resolve_try_def dest: find_row_Some)
qed

lemma monitoring_resolve_found:
  assumes "\<exists>b \<in> set db. ma_id b = j"
  shows "\<exists>b db'. find (\<lambda>b. ma_id b = j) db = Some b
           \<and> monitoring_resolve_alert db j True = Inr (db', AlertResolvedMessage j)
           \<and> find (\<lambda>b. ma_id b = j) db' = Some (b\<lparr>ma_resolved := True\<rparr>)
           \<and> length db' = length db
           \<and> (\<forall>k. k \<noteq> j \<longrightarrow> filter (\<lambda>r. ma_id r = k) db' = filter (\<lambda>r. ma_id r = k) db)
           \<and> monitoring_resolve_alert db' j True = Inr (db', AlertResolvedMessage j)"
proof (cases "find (\<lambda>b. ma_id b = j) db")
  case None
  with assms show ?thesis by (simp add: find_row_None)
next
  case (Some b)
  let ?db = "store_resolved j db"
  have first: "monitoring_resolve_alert db j True = Inr (?db, AlertResolvedMessage j)"
    using Some by (simp add: monitoring_resolve_alert_def monitoring_resolve_try_def)
  have found: "find (\<lambda>b. ma_id b = j) ?db = Some (b\<lparr>ma_resolved := True\<rparr>)"
    using Some by (rule find_store_resolved)
  then have again: "monitoring_resolve_alert ?db j True = Inr (?db, AlertResolvedMessage j)"
    by (simp add: monitoring_resolve_alert_def monitoring_resolve_try_def store_resolved_twice)
  show ?thesis
    using Some first found again
    by (intro exI [of _ b] exI [of _ ?db])
       (simp add: length_store_resolved filter_store_resolved)
qed

lemma monitoring_resolve_fails_iff:
  "(\<exists>e. monitoring_resolve_alert db j True = Inl e) \<longleftrightarrow> (\<forall>b \<in> set db. ma_id b \<noteq> j)"
proof (cases "find (\<lambda>a. ma_id a = j) db")
  case None
  then show ?thesis
    by (simp add: monitoring_resolve_alert_def monitoring_resolve_try_def
        find_row_None [symmetric])
next
  case (Some a)
  then show ?thesis
    by (auto simp: monitoring_resolve_alert_def monitoring_resolve_try_def dest: find_row_Some)
qed

text \<open>
  Claim C6, as stated, fails: in the risk service an alert resolved at time 1 and resolved
  again at time 2 ends with \<open>resolved_at = 2\<close>; the first resolution time is not kept.
\<close>

theorem second_resolution_replaces_resolved_at:
  "risk_resolve_alert
     [\<lparr>ra_id = 7, ra_user_id = 1, ra_alert_type = ''drawdown'', ra_severity = ''high'',
       ra_message = ''m'', ra_created_at = 0, ra_resolved_at = None\<rparr>] 7 1 True
   = Inr ([\<lparr>ra_id = 7, ra_user_id = 1, ra_alert_type = ''drawdown'', ra_severity = ''high'',
            ra_message = ''m'', ra_created_at = 0, ra_resolved_at = Some 1\<rparr>],
          \<lparr>ra_id = 7, ra_user_id = 1, ra_alert_type = ''drawdown'', ra_severity = ''high'',
            ra_message = ''m'', ra_created_at = 0, ra_resolved_at = Some 1\<rparr>)
   \<and> risk_resolve_alert
     [\<lparr>ra_id = 7, ra_user_id = 1, ra_alert_type = ''drawdown'', ra_severity = ''high'',
       ra_message = ''m'', ra_created_at = 0, ra_resolved_at = Some 1\<rparr>] 7 2 True
   = Inr ([\<lparr>ra_id = 7, ra_user_id = 1, ra_alert_type = ''drawdown'', ra_severity = ''high'',
            ra_message = ''m'', ra_created_at = 0, ra_resolved_at = Some 2\<rparr>],
          \<lparr>ra_id = 7, ra_user_id = 1, ra_alert_type = ''drawdown'', ra_severity = ''high'',
            ra_message = ''m'', ra_created_at = 0, ra_resolved_at = Some 2\<rparr>)"
  by (simp add: risk_resolve_alert_def risk_resolve_try_def)

text \<open>
  Claim C6, amended. With a commit that succeeds: resolving an alert that exists returns
  success, whether or not it was resolved before, and changes no other row. In the risk
  service the row then carries the time of this call as \<open>resolved_at\<close>; in the monitoring
  service the row then has its \<open>resolved\<close> flag set, and resolving again changes nothing.
  Resolving fails exactly when no alert has the given id.
\<close>

theorem resolve_succeeds_and_overwrites:
  "((\<exists>a \<in> set db. ra_id a = i) \<longrightarrow>
      (\<exists>a db'. find (\<lambda>a. ra_id a = i) db = Some a
         \<and> risk_resolve_alert db i now True = Inr (db', a\<lparr>ra_resolved_at := Some now\<rparr>)
         \<and> find (\<lambda>a. ra_id a = i) db' = Some (a\<lparr>ra_resolved_at := Some now\<rparr>)
         \<and> length db' = length db
         \<and> (\<forall>k. k \<noteq> i \<longrightarrow> filter (\<lambda>r. ra_id r = k) db' = filter (\<lambda>r. ra_id r = k) db)))
   \<and> ((\<exists>e. risk_resolve_alert db i now True = Inl e) \<longleftrightarrow> (\<forall>a \<in> set db. ra_id a \<noteq> i))
   \<and> ((\<exists>b \<in> set mdb. ma_id b = j) \<longrightarrow>
      (\<exists>b mdb'. find (\<lambda>b. ma_id b = j) mdb = Some b
         \<and> monitoring_resolve_alert mdb j True = Inr (mdb', AlertResolvedMessage j)
         \<and> find (\<lambda>b. ma_id b = j) mdb' = Some (b\<lparr>ma_resolved := True\<rparr>)
         \<and> length mdb' = length mdb
         \<and> (\<forall>k. k \<noteq> j \<longrightarrow> filter (\<lambda>r. ma_id r = k) mdb' = filter (\<lambda>r. ma_id r = k) mdb)
         \<and> monitoring_resolve_alert mdb' j True = Inr (mdb', AlertResolvedMessage j)))
   \<and> ((\<exists>e. monitoring_resolve_alert mdb j True = Inl e) \<longleftrightarrow> (\<forall>b \<in> set mdb. ma_id b \<noteq> j))"
  using risk_resolve_found [of db i now] risk_resolve_fails_iff [of db i now]
    monitoring_resolve_found [of mdb j] monitoring_resolve_fails_iff [of mdb j]
  by (intro conjI impI) assumption+

theorem resolve_succeeds_and_overwrites_witness:
  "risk_resolve_alert
     [\<lparr>ra_id = 7, ra_user_id = 1, ra_alert_type = ''drawdown'', ra_severity = ''high'',
       ra_message = ''m'', ra_created_at = 0, ra_resolved_at = Some 1\<rparr>,
      \<lparr>ra_id = 8, ra_user_id = 1, ra_alert_type = ''leverage'', ra_severity = ''high'',
       ra_message = ''n'', ra_created_at = 0, ra_resolved_at = None\<rparr>] 7 2 True
   = Inr ([\<lparr>ra_id = 7, ra_user_id = 1, ra_alert_type = ''drawdown'', ra_severity = ''high'',
            ra_message = ''m'', ra_created_at = 0, ra_resolved_at = Some 2\<rparr>,
           \<lparr>ra_id = 8, ra_user_id = 1, ra_alert_type = ''leverage'', ra_severity = ''high'',
            ra_message = ''n'', ra_created_at = 0, ra_resolved_at = None\<rparr>],
          \<lparr>ra_id = 7, ra_user_id = 1, ra_alert_type = ''drawdown'', ra_severity = ''high'',
            ra_message = ''m'', ra_created_at = 0, ra_resolved_at = Some 2\<rparr>)
   \<and> (\<exists>e. risk_resolve_alert
     [\<lparr>ra_id = 7, ra_user_id = 1, ra_alert_type = ''drawdown'', ra_severity = ''high'',
       ra_message = ''m'', ra_created_at = 0, ra_resolved_at = Some 1\<rparr>,
      \<lparr>ra_id = 8, ra_user_id = 1, ra_alert_type = ''leverage'', ra_severity = ''high'',
       ra_message = ''n'', ra_created_at = 0, ra_resolved_at = None\<rparr>] 9 2 True = Inl e)
   \<and> monitoring_resolve_alert
     [\<lparr>ma_id = 3, ma_service = ''system'', ma_severity = ''warning'', ma_message = ''m'',
       ma_timestamp = 0, ma_resolved = False\<rparr>,
      \<lparr>ma_id = 4, ma_service = ''system'', ma_severity = ''warning'', ma_message = ''n'',
       ma_timestamp = 0, ma_resolved = False\<rparr>] 3 True
   = Inr ([\<lparr>ma_id = 3, ma_service = ''system'', ma_severity = ''warning'', ma_message = ''m'',
            ma_timestamp = 0, ma_resolved = True\<rparr>,
           \<lparr>ma_id = 4, ma_service = ''system'', ma_severity = ''warning'', ma_message = ''n'',
            ma_timestamp = 0, ma_resolved = False\<rparr>], AlertResolvedMessage 3)
   \<and> monitoring_resolve_alert
     [\<lparr>ma_id = 3, ma_service = ''system'', ma_severity = ''warning'', ma_message = ''m'',
       ma_timestamp = 0, ma_resolved = True\<rparr>,
      \<lparr>ma_id = 4, ma_service = ''system'', ma_severity = ''warning'', ma_message = ''n'',
       ma_timestamp = 0, ma_resolved = False\<rparr>] 3 True
   = Inr ([\<lparr>ma_id = 3, ma_service = ''system'', ma_severity = ''warning'', ma_message = ''m'',
            ma_timestamp = 0, ma_resolved = True\<rparr>,
           \<lparr>ma_id = 4, ma_service = ''system'', ma_severity = ''warning'', ma_message = ''n'',
            ma_timestamp = 0, ma_resolved = False\<rparr>], AlertResolvedMessage 3)
   \<and> (\<exists>e. monitoring_resolve_alert
     [\<lparr>ma_id = 3, ma_service = ''system'', ma_severity = ''warning'', ma_message = ''m'',
       ma_timestamp = 0, ma_resolved = False\<rparr>,
      \<lparr>ma_id = 4, ma_service = ''system'', ma_severity = ''warning'', ma_message = ''n'',
       ma_timestamp = 0, ma_resolved = False\<rparr>] 5 True = Inl e)"
  using resolve_succeeds_and_overwrites
    [of "[\<lparr>ra_id = 7, ra_user_id = 1, ra_alert_type = ''drawdown'', ra_severity = ''high'',
           ra_message = ''m'', ra_created_at = 0, ra_resolved_at = Some 1\<rparr>,
          \<lparr>ra_id = 8, ra_user_id = 1, ra_alert_type = ''leverage'', ra_severity = ''high'',
           ra_message = ''n'', ra_created_at = 0, ra_resolved_at = None\<rparr>]" 7 2
        "[\<lparr>ma_id = 3, ma_service = ''system'', ma_severity = ''warning'', ma_message = ''m'',
           ma_timestamp = 0, ma_resolved = False\<rparr>,
          \<lparr>ma_id = 4, ma_service = ''system'', ma_severity = ''warning'', ma_message = ''n'',
           ma_timestamp = 0, ma_resolved = False\<rparr>]" 3]
    resolve_succeeds_and_overwrites
    [of "[\<lparr>ra_id = 7, ra_user_id = 1, ra_alert_type = ''drawdown'', ra_severity = ''high'',
           ra_message = ''m'', ra_created_at = 0, ra_resolved_at = Some 1\<rparr>,
          \<lparr>ra_id = 8, ra_user_id = 1, ra_alert_type = ''leverage'', ra_severity = ''high'',
           ra_message = ''n'', ra_created_at = 0, ra_resolved_at = None\<rparr>]" 9 2
        "[\<lparr>ma_id = 3, ma_service = ''system'', ma_severity = ''warning'', ma_message = ''m'',
           ma_timestamp = 0, ma_resolved = False\<rparr>,
          \<lparr>ma_id = 4, ma_service = ''system'', ma_severity = ''warning'', ma_message = ''n'',
           ma_timestamp = 0, ma_resolved = False\<rparr>]" 5]
  by (simp add: risk_resolve_alert_def risk_resolve_try_def monitoring_resolve_alert_def
      monitoring_resolve_try_def)

section \<open>Dispatch to the channels\<close>

text \<open>
  Claim C7, as stated, fails: \<open>AlertSender.send_alert\<close> returns \<open>None\<close> when both channels
  fail and when one of them succeeds; the caller is told neither a success nor that all
  channels failed.
\<close>

theorem dispatch_returns_none_either_way:
  "returned (sender_send_alert
      \<lparr>smtp_user = None, smtp_password = None, smtp_from = None, smtp_to = None,
        webhook_url = None\<rparr>
      \<lparr>smtp_accepts = True, webhook_accepts = True\<rparr>
      ''high_resource'' [''resource_type'', ''usage'', ''threshold''])
   = returned (sender_send_alert
      \<lparr>smtp_user = None, smtp_password = None, smtp_from = None, smtp_to = None,
        webhook_url = Some ''https://hooks''\<rparr>
      \<lparr>smtp_accepts = True, webhook_accepts = True\<rparr>
      ''high_resource'' [''resource_type'', ''usage'', ''threshold''])
   \<and> delivered (sender_send_alert
      \<lparr>smtp_user = None, smtp_password = None, smtp_from = None, smtp_to = None,
        webhook_url = None\<rparr>
      \<lparr>smtp_accepts = True, webhook_accepts = True\<rparr>
      ''high_resource'' [''resource_type'', ''usage'', ''threshold'']) = []
   \<and> delivered (sender_send_alert
      \<lparr>smtp_user = None, smtp_password = None, smtp_from = None, smtp_to = None,
        webhook_url = Some ''https://hooks''\<rparr>
      \<lparr>smtp_accepts = True, webhook_accepts = True\<rparr>
      ''high_resource'' [''resource_type'', ''usage'', ''threshold'']) = [Slack]"
  by (simp add: sender_send_alert_def send_email_def send_slack_def truthy_def templates_def
      format_ok_def)

text \<open>
  Claim C7, amended. The dispatch never raises and returns \<open>None\<close> in every case. For a
  known alert type each channel is tried whatever the other one did: a channel is among
  the delivered ones exactly when its own send succeeded, and the failure of all channels
  is logged exactly when none delivered. For an unknown alert type nothing is sent.
\<close>

theorem dispatch_logs_only:
  "returned (sender_send_alert sender tr alert_type data) = PyNone
   \<and> (templates alert_type \<noteq> None \<longrightarrow>
        (Email \<in> set (delivered (sender_send_alert sender tr alert_type data))
           \<longleftrightarrow> fst (send_email sender tr alert_type data))
      \<and> (Slack \<in> set (delivered (sender_send_alert sender tr alert_type data))
           \<longleftrightarrow> fst (send_slack sender tr alert_type data))
      \<and> (AllSendsFailed \<in> set (logged (sender_send_alert sender tr alert_type data))
           \<longleftrightarrow> delivered (sender_send_alert sender tr alert_type data) = []))
   \<and> (templates alert_type = None \<longrightarrow>
        delivered (sender_send_alert sender tr alert_type data) = []
      \<and> logged (sender_send_alert sender tr alert_type data) = [UnknownAlertType])"
proof -
  have e: "AllSendsFailed \<notin> set (snd (send_email sender tr alert_type data))"
    by (simp add: send_email_def split: option.splits)
  have s: "AllSendsFailed \<notin> set (snd (send_slack sender tr alert_type data))"
    by (simp add: send_slack_def split: option.splits)
  show ?thesis
    using e s by (auto simp: sender_send_alert_def Let_def split: prod.splits)
qed

theorem dispatch_logs_only_witness:
  "templates ''high_resource'' \<noteq> None
   \<and> fst (send_slack
        \<lparr>smtp_user = None, smtp_password = None, smtp_from = None, smtp_to = None,
          webhook_url = Some ''https://hooks''\<rparr>
        \<lparr>smtp_accepts = False, webhook_accepts = True\<rparr>
        ''high_resource'' [''resource_type'', ''usage'', ''threshold''])
   \<and> Slack \<in> set (delivered (sender_send_alert
        \<lparr>smtp_user = None, smtp_password = None, smtp_from = None, smtp_to = None,
          webhook_url = Some ''https://hooks''\<rparr>
        \<lparr>smtp_accepts = False, webhook_accepts = True\<rparr>
        ''high_resource'' [''resource_type'', ''usage'', ''threshold'']))
   \<and> AllSendsFailed \<notin> set (logged (sender_send_alert
        \<lparr>smtp_user = None, smtp_password = None, smtp_from = None, smtp_to = None,
          webhook_url = Some ''https://hooks''\<rparr>
        \<lparr>smtp_accepts = False, webhook_accepts = True\<rparr>
        ''high_resource'' [''resource_type'', ''usage'', ''threshold'']))
   \<and> templates ''cpu'' = None
   \<and> logged (sender_send_alert
        \<lparr>smtp_user = None, smtp_password = None, smtp_from = None, smtp_to = None,
          webhook_url = Some ''https://hooks''\<rparr>
        \<lparr>smtp_accepts = False, webhook_accepts = True\<rparr>
        ''cpu'' [''resource_type'', ''usage'', ''threshold'']) = [UnknownAlertType]"
  using dispatch_logs_only
    [of "\<lparr>smtp_user = None, smtp_password = None, smtp_from = None, smtp_to = None,
          webhook_url = Some ''https://hooks''\<rparr>"
        "\<lparr>smtp_accepts = False, webhook_accepts = True\<rparr>"
        "''high_resource''" "[''resource_type'', ''usage'', ''threshold'']"]
    dispatch_logs_only
    [of "\<lparr>smtp_user = None, smtp_password = None, smtp_from = None, smtp_to = None,
          webhook_url = Some ''https://hooks''\<rparr>"
        "\<lparr>smtp_accepts = False, webhook_accepts = True\<rparr>"
        "''cpu''" "[''resource_type'', ''usage'', ''threshold'']"]
  by (simp add: sender_send_alert_def send_slack_def send_email_def truthy_def templates_def
      format_ok_def)


section \<open>Value at risk and expected shortfall\<close>



lemma set_insert64: "set (insert64 x xs) = insert x (set xs)"
  by (induction xs) auto



lemma sorts_before_total: "sorts_before a b \<or> sorts_before b a"
  by (cases a; cases b) (auto simp: sorts_before_def)

lemma sorts_before_trans: "sorts_before a b \<Longrightarrow> sorts_before b c \<Longrightarrow> sorts_before a c"
  by (cases a; cases b; cases c) (auto simp: sorts_before_def)

lemma sorted_insert64:
  "sorted_wrt sorts_before xs \<Longrightarrow> sorted_wrt sorts_before (insert64 x xs)"
proof (induction xs)
  case Nil
  then show ?case by simp
next
  case (Cons y ys)
  show ?case
  proof (cases "sorts_before x y")
    case True
    with Cons.prems show ?thesis by (auto intro: sorts_before_trans)
  next
    case False
    with sorts_before_total [of x y] have "sorts_before y x" by simp
    with Cons False show ?thesis by (auto simp: set_insert64)
  qed
qed

lemma sorted_sort64: "sorted_wrt sorts_before (sort64 xs)"
  by (induction xs) (simp_all add: sorted_insert64)






lemma var_example_empty: "calculate_var ideal [] (Finite (1 / 2)) = Inl IndexError"
  by (simp add: calculate_var_def np_percentile_def ideal_simps)



lemma expected_shortfall_example_out_of_range:
  "calculate_expected_shortfall ideal [Finite 1, Finite 2, Finite 3] (Finite (3 / 2))
     = Inl ValueError"
  by (simp add: calculate_expected_shortfall_def calculate_var_def np_percentile_def ideal_simps)

lemma var_example_overflow:
  "calculate_var ideal [Finite (- (2 ^ 1023)), Finite (2 ^ 1023)] (Finite (1 / 2)) = Inr NegInf"
  by (simp add: calculate_var_def np_percentile_def np_quantile_def lerp_def
      sorts_before_def Let_def ideal_def ideal_minus_def ideal_divide_def bounded_def
      largest_double_def)

text \<open>
  Claim C5, as stated, fails: for the returns \<open>[-2^1023, 2^1023]\<close> at confidence \<open>0.5\<close> the
  difference of the two in the interpolation overflows, the value at risk is \<open>-inf\<close> and no
  return lies at or below it. \<open>calculate_expected_shortfall\<close> then returns \<open>np.mean\<close> of
  the empty list, \<open>nan\<close>, not the value at risk.
\<close>

theorem expected_shortfall_has_no_fallback:
  "calculate_var ideal [Finite (- (2 ^ 1023)), Finite (2 ^ 1023)] (Finite (1 / 2)) = Inr NegInf
   \<and> filter (\<lambda>r. le64 r NegInf) [Finite (- (2 ^ 1023)), Finite (2 ^ 1023)] = []
   \<and> calculate_expected_shortfall ideal [Finite (- (2 ^ 1023)), Finite (2 ^ 1023)]
       (Finite (1 / 2)) = Inr NaN"
  unfolding calculate_expected_shortfall_def var_example_overflow
  by (simp add: ideal_simps)

text \<open>
  Claim C5, amended. When \<open>calculate_var\<close> raises, so does
  \<open>calculate_expected_shortfall\<close>; otherwise it returns \<open>np.mean\<close> of the returns at or
  below the value at risk. There is no fallback to the value at risk: when no return lies
  at or below it, the result is \<open>np.mean\<close> of the empty list, which is \<open>nan\<close>.
\<close>

theorem expected_shortfall_cases:
  "(calculate_var A returns confidence = Inl e \<longrightarrow>
      calculate_expected_shortfall A returns confidence = Inl e)
   \<and> (calculate_var A returns confidence = Inr var \<longrightarrow>
        calculate_expected_shortfall A returns confidence
          = Inr (mean64 A (filter (\<lambda>r. le64 r var) returns))
      \<and> (filter (\<lambda>r. le64 r var) returns = [] \<longrightarrow>
           calculate_expected_shortfall A returns confidence = Inr (mean64 A [])))"
  by (simp add: calculate_expected_shortfall_def)

lemma var_example_median:
  "calculate_var ideal [Finite 5, Finite 1, Finite 4, Finite 2, Finite 3] (Finite (1 / 2))
     = Inr (Finite 3)"
  by (simp add: calculate_var_def np_percentile_def np_quantile_def lerp_def
      sorts_before_def Let_def ideal_simps)

lemma expected_shortfall_example:
  "calculate_expected_shortfall ideal [Finite 5, Finite 1, Finite 4, Finite 2, Finite 3]
     (Finite (1 / 2)) = Inr (Finite 2)"
  unfolding calculate_expected_shortfall_def var_example_median
  by (simp add: ideal_simps)

lemma var_example_nan: "calculate_var ideal [NaN] (Finite (1 / 2)) = Inr NaN"
  by (simp add: calculate_var_def np_percentile_def np_quantile_def Let_def ideal_simps)

lemma expected_shortfall_example_nan:
  "calculate_expected_shortfall ideal [NaN] (Finite (1 / 2)) = Inr NaN"
  unfolding calculate_expected_shortfall_def var_example_nan
  by (simp add: ideal_simps)

theorem expected_shortfall_cases_witness:
  "calculate_var ideal [Finite 5, Finite 1, Finite 4, Finite 2, Finite 3] (Finite (1 / 2))
     = Inr (Finite 3)
   \<and> calculate_expected_shortfall ideal [Finite 5, Finite 1, Finite 4, Finite 2, Finite 3]
       (Finite (1 / 2)) = Inr (Finite 2)
   \<and> calculate_var ideal [NaN] (Finite (1 / 2)) = Inr NaN
   \<and> filter (\<lambda>r. le64 r NaN) [NaN] = []
   \<and> calculate_expected_shortfall ideal [NaN] (Finite (1 / 2)) = Inr (mean64 ideal [])
   \<and> mean64 ideal [] = NaN
   \<and> calculate_expected_shortfall ideal [] (Finite (1 / 2)) = Inl IndexError"
  using expected_shortfall_cases
          [of ideal "[Finite 5, Finite 1, Finite 4, Finite 2, Finite 3]" "Finite (1 / 2)" _ "Finite 3"]
        expected_shortfall_cases [of ideal "[NaN]" "Finite (1 / 2)" _ NaN]
        expected_shortfall_cases [of ideal "[]" "Finite (1 / 2)" IndexError]
        var_example_median var_example_nan var_example_empty expected_shortfall_example
        expected_shortfall_example_nan
  by (simp add: ideal_simps)

section \<open>Maximum drawdown\<close>

lemma finite64_value: "finite64 x \<Longrightarrow> Finite (value64 x) = x"
  by (cases x) simp_all

lemma finite64_iff: "finite64 x \<longleftrightarrow> (\<exists>v. x = Finite v)"
  by (cases x) simp_all

lemma length_cumprod_from: "length (cumprod_from A acc xs) = length xs"
  by (induction xs arbitrary: acc) simp_all

lemma length_np_cumprod: "length (np_cumprod A xs) = length xs"
  by (cases xs) (simp_all add: length_cumprod_from)

lemma length_maximum_from: "length (maximum_from m xs) = length xs"
  by (induction xs arbitrary: m) simp_all

lemma length_np_maximum_accumulate: "length (np_maximum_accumulate xs) = length xs"
  by (cases xs) (simp_all add: length_maximum_from)

lemma cumprod_from_nth:
  "i < length xs \<Longrightarrow> cumprod_from A acc xs ! i = foldl (times64 A) acc (take (Suc i) xs)"
proof (induction xs arbitrary: acc i)
  case Nil
  then show ?case by simp
next
  case (Cons x xs)
  then show ?case by (cases i) simp_all
qed

lemma np_cumprod_nth:
  assumes "i < length returns"
  shows "np_cumprod A (map (\<lambda>r. plus64 A (Finite 1) r) returns) ! i = spec_cumulative A returns i"
proof (cases returns)
  case Nil
  with assms show ?thesis by simp
next
  case (Cons r rs)
  show ?thesis
  proof (cases i)
    case 0
    then show ?thesis by (simp add: Cons spec_cumulative_def)
  next
    case (Suc j)
    with assms Cons have "j < length rs" by simp
    then show ?thesis
      by (simp add: Cons Suc spec_cumulative_def cumprod_from_nth take_map)
  qed
qed

lemma spec_cumulative_0:
  "returns \<noteq> [] \<Longrightarrow> spec_cumulative A returns 0 = plus64 A (Finite 1) (returns ! 0)"
  by (cases returns) (simp_all add: spec_cumulative_def)

lemma spec_cumulative_Suc:
  assumes "Suc i < length returns"
  shows "spec_cumulative A returns (Suc i)
           = times64 A (spec_cumulative A returns i) (plus64 A (Finite 1) (returns ! Suc i))"
proof -
  obtain r rs where r: "returns = r # rs" using assms by (cases returns) auto
  have i: "i < length rs" using assms r by simp
  have "take (Suc i) rs = take i rs @ [rs ! i]" using i by (rule take_Suc_conv_app_nth)
  then show ?thesis by (simp add: r spec_cumulative_def)
qed

lemma Max_insert_max:
  "finite A \<Longrightarrow> Max (insert (max m x) A) = Max (insert m (insert x A))"
  by (cases "A = {}") (simp_all add: max.assoc)

lemma Min_insert_min:
  "finite A \<Longrightarrow> Min (insert (min m x) A) = Min (insert m (insert x A))"
  by (cases "A = {}") (simp_all add: min.assoc)

lemma maximum_from_nth:
  "i < length xs \<Longrightarrow>
     maximum_from (Finite m) (map Finite xs) ! i = Finite (Max (insert m (set (take (Suc i) xs))))"
proof (induction xs arbitrary: m i)
  case Nil
  then show ?case by simp
next
  case (Cons x xs)
  show ?case
  proof (cases i)
    case 0
    then show ?thesis by simp
  next
    case (Suc j)
    with Cons.prems have "j < length xs" by simp
    then have "maximum_from (Finite (max m x)) (map Finite xs) ! j
                 = Finite (Max (insert (max m x) (set (take (Suc j) xs))))"
      by (rule Cons.IH)
    then show ?thesis using Suc by (simp add: Max_insert_max)
  qed
qed

lemma np_maximum_accumulate_nth:
  assumes "i < length xs"
  shows "np_maximum_accumulate (map Finite xs) ! i = Finite (Max (set (take (Suc i) xs)))"
proof (cases xs)
  case Nil
  with assms show ?thesis by simp
next
  case (Cons x ys)
  then show ?thesis using assms by (cases i) (simp_all add: maximum_from_nth)
qed

lemma set_take_Suc_image:
  assumes "i < length xs"
  shows "set (take (Suc i) xs) = (!) xs ` {..i}"
proof -
  from assms have "Suc i \<le> length xs" by simp
  then have "(!) xs ` {0..<Suc i} = set (take (Suc i) xs)" by (rule nth_image)
  moreover have "{0..<Suc i} = {..i}" by auto
  ultimately show ?thesis by (simp only:)
qed

lemma foldl_np_minimum_Finite:
  "foldl np_minimum (Finite a) (map Finite xs) = Finite (Min (insert a (set xs)))"
proof (induction xs arbitrary: a)
  case Nil
  then show ?case by simp
next
  case (Cons x xs)
  then show ?case by (simp add: Min_insert_min)
qed

lemma np_min_Finite: "ys \<noteq> [] \<Longrightarrow> np_min (map Finite ys) = Inr (Finite (Min (set ys)))"
  by (cases ys) (simp_all add: np_min_def foldl_np_minimum_Finite)

lemma ieee_plus:
  assumes "ieee_arithmetic A" and "is_double A r" and "plus64 A (Finite 1) (Finite r) = Finite f"
  shows "is_double A f \<and> (- 1 < r \<longrightarrow> 0 < f) \<and> (0 < r \<longrightarrow> 1 \<le> f)"
  using assms unfolding ieee_arithmetic_def by blast

lemma ieee_times_finite:
  assumes "ieee_arithmetic A" and "times64 A x y = Finite z"
  shows "finite64 x \<and> finite64 y \<and> is_double A z"
  using assms unfolding ieee_arithmetic_def by blast

lemma ieee_times_order:
  assumes "ieee_arithmetic A" and "times64 A (Finite c) (Finite f) = Finite z"
    and "0 \<le> c" and "0 < f"
  shows "0 \<le> z \<and> (0 < c \<and> 1 \<le> f \<longrightarrow> c \<le> z)"
  using assms unfolding ieee_arithmetic_def by blast

lemma ieee_minus:
  assumes "ieee_arithmetic A" and "is_double A c" and "is_double A m" and "0 \<le> c" and "c \<le> m"
  shows "\<exists>d. minus64 A (Finite c) (Finite m) = Finite d \<and> is_double A d \<and>
              - m \<le> d \<and> d \<le> 0 \<and> (c = m \<longrightarrow> d = 0)"
  using assms unfolding ieee_arithmetic_def by blast

lemma ieee_divide:
  assumes "ieee_arithmetic A" and "is_double A d" and "is_double A m"
    and "- m \<le> d" and "d \<le> 0" and "0 < m"
  shows "\<exists>e. divide64 A (Finite d) (Finite m) = Finite e \<and> e \<le> 0 \<and> (d = 0 \<longrightarrow> e = 0)"
  using assms unfolding ieee_arithmetic_def by blast

lemma spec_cumulative_finite:
  assumes "list_all finite64 (np_cumprod A (map (\<lambda>r. plus64 A (Finite 1) r) returns))"
    and "i < length returns"
  shows "spec_cumulative A returns i = Finite (value64 (spec_cumulative A returns i))"
proof -
  have "finite64 (np_cumprod A (map (\<lambda>r. plus64 A (Finite 1) r) returns) ! i)"
    using assms by (simp add: list_all_length length_np_cumprod)
  then have "finite64 (spec_cumulative A returns i)"
    using assms(2) by (simp add: np_cumprod_nth)
  then show ?thesis by (simp add: finite64_value)
qed

lemma spec_cumulative_props:
  assumes ieee: "ieee_arithmetic A"
    and rs: "\<forall>r \<in> set rs. is_double A r \<and> - 1 < r"
    and fin: "list_all finite64 (np_cumprod A (map (\<lambda>r. plus64 A (Finite 1) r) (map Finite rs)))"
    and i: "i < length rs"
  shows "is_double A (value64 (spec_cumulative A (map Finite rs) i))
       \<and> 0 \<le> value64 (spec_cumulative A (map Finite rs) i)
       \<and> 0 < value64 (spec_cumulative A (map Finite rs) 0)
       \<and> ((\<forall>r \<in> set rs. 0 < r) \<longrightarrow>
            0 < value64 (spec_cumulative A (map Finite rs) i)
          \<and> (\<forall>j \<le> i. value64 (spec_cumulative A (map Finite rs) j)
                        \<le> value64 (spec_cumulative A (map Finite rs) i)))"
  using i
proof (induction i)
  case 0
  let ?c = "spec_cumulative A (map Finite rs) 0"
  have ne: "rs \<noteq> []" using 0 by auto
  have r0: "is_double A (rs ! 0) \<and> - 1 < rs ! 0" using rs 0 by simp
  have "?c = Finite (value64 ?c)" using fin 0 by (intro spec_cumulative_finite) simp_all
  moreover have "?c = plus64 A (Finite 1) (Finite (rs ! 0))"
    using ne 0 by (simp add: spec_cumulative_0)
  ultimately have p: "plus64 A (Finite 1) (Finite (rs ! 0)) = Finite (value64 ?c)" by simp
  from ieee_plus [OF ieee _ p] r0
  have "is_double A (value64 ?c)" and "0 < value64 ?c"
    and "0 < rs ! 0 \<longrightarrow> 1 \<le> value64 ?c" by simp_all
  then show ?case by auto
next
  case (Suc i)
  let ?d = "\<lambda>k. value64 (spec_cumulative A (map Finite rs) k)"
  have i: "i < length rs" using Suc.prems by simp
  note ih = Suc.IH [OF i]
  have r: "is_double A (rs ! Suc i) \<and> - 1 < rs ! Suc i" using rs Suc.prems by simp
  have ci: "spec_cumulative A (map Finite rs) i = Finite (?d i)"
    using fin i by (intro spec_cumulative_finite) simp_all
  have cs: "spec_cumulative A (map Finite rs) (Suc i) = Finite (?d (Suc i))"
    using fin Suc.prems by (intro spec_cumulative_finite) simp_all
  have step: "times64 A (Finite (?d i)) (plus64 A (Finite 1) (Finite (rs ! Suc i)))
                = Finite (?d (Suc i))"
    using spec_cumulative_Suc [of i "map Finite rs" A] Suc.prems ci cs by simp
  from ieee_times_finite [OF ieee step]
  obtain f where f: "plus64 A (Finite 1) (Finite (rs ! Suc i)) = Finite f"
    and dbl: "is_double A (?d (Suc i))"
    by (auto simp: finite64_iff)
  from ieee_plus [OF ieee _ f] r
  have fpos: "0 < f" and fone: "0 < rs ! Suc i \<longrightarrow> 1 \<le> f" by simp_all
  from step f have t: "times64 A (Finite (?d i)) (Finite f) = Finite (?d (Suc i))" by simp
  from ieee_times_order [OF ieee t _ fpos] ih
  have nonneg: "0 \<le> ?d (Suc i)" and mono: "0 < ?d i \<and> 1 \<le> f \<longrightarrow> ?d i \<le> ?d (Suc i)"
    by simp_all
  have pos: "0 < ?d (Suc i) \<and> (\<forall>j \<le> Suc i. ?d j \<le> ?d (Suc i))" if all: "\<forall>r \<in> set rs. 0 < r"
  proof -
    have "0 < rs ! Suc i" using all Suc.prems by simp
    with fone have "1 \<le> f" by simp
    moreover have di: "0 < ?d i" and dj: "\<forall>j \<le> i. ?d j \<le> ?d i" using ih all by simp_all
    ultimately have le: "?d i \<le> ?d (Suc i)" using mono by simp
    have "?d j \<le> ?d (Suc i)" if "j \<le> Suc i" for j
    proof (cases "j = Suc i")
      case True
      then show ?thesis by simp
    next
      case False
      with that have "j \<le> i" by simp
      with dj have "?d j \<le> ?d i" by simp
      with le show ?thesis by linarith
    qed
    moreover from di le have "0 < ?d (Suc i)" by linarith
    ultimately show ?thesis by blast
  qed
  show ?case using dbl nonneg ih pos by blast
qed

lemma np_cumprod_Finite:
  assumes "list_all finite64 (np_cumprod A (map (\<lambda>r. plus64 A (Finite 1) r) returns))"
  shows "np_cumprod A (map (\<lambda>r. plus64 A (Finite 1) r) returns)
           = map Finite (map (\<lambda>i. value64 (spec_cumulative A returns i)) [0..<length returns])"
proof (rule nth_equalityI)
  show "length (np_cumprod A (map (\<lambda>r. plus64 A (Finite 1) r) returns))
          = length (map Finite (map (\<lambda>i. value64 (spec_cumulative A returns i))
                                  [0..<length returns]))"
    by (simp add: length_np_cumprod)
  fix i
  assume "i < length (np_cumprod A (map (\<lambda>r. plus64 A (Finite 1) r) returns))"
  then have i: "i < length returns" by (simp add: length_np_cumprod)
  then show "np_cumprod A (map (\<lambda>r. plus64 A (Finite 1) r) returns) ! i
        = map Finite (map (\<lambda>i. value64 (spec_cumulative A returns i)) [0..<length returns]) ! i"
    using spec_cumulative_finite [OF assms i] by (simp add: np_cumprod_nth)
qed

lemma running_max_nth:
  assumes "list_all finite64 (np_cumprod A (map (\<lambda>r. plus64 A (Finite 1) r) returns))"
    and "i < length returns"
  shows "np_maximum_accumulate (np_cumprod A (map (\<lambda>r. plus64 A (Finite 1) r) returns)) ! i
           = spec_running_max A returns i"
proof -
  let ?ds = "map (\<lambda>i. value64 (spec_cumulative A returns i)) [0..<length returns]"
  have len: "i < length ?ds" using assms(2) by simp
  have "set (take (Suc i) ?ds) = (!) ?ds ` {..i}" using len by (rule set_take_Suc_image)
  also have "\<dots> = (\<lambda>j. value64 (spec_cumulative A returns j)) ` {..i}"
    using assms(2) by (intro image_cong) simp_all
  finally have s: "set (take (Suc i) ?ds) = (\<lambda>j. value64 (spec_cumulative A returns j)) ` {..i}" .
  show ?thesis
    unfolding np_cumprod_Finite [OF assms(1)] np_maximum_accumulate_nth [OF len] s
    by (simp add: spec_running_max_def)
qed

lemma drawdown_list:
  assumes "list_all finite64 (np_cumprod A (map (\<lambda>r. plus64 A (Finite 1) r) returns))"
  shows "map2 (\<lambda>c m. divide64 A (minus64 A c m) m)
           (np_cumprod A (map (\<lambda>r. plus64 A (Finite 1) r) returns))
           (np_maximum_accumulate (np_cumprod A (map (\<lambda>r. plus64 A (Finite 1) r) returns)))
         = map (spec_drawdown A returns) [0..<length returns]"
proof (rule nth_equalityI)
  let ?cs = "np_cumprod A (map (\<lambda>r. plus64 A (Finite 1) r) returns)"
  show "length (map2 (\<lambda>c m. divide64 A (minus64 A c m) m) ?cs (np_maximum_accumulate ?cs))
          = length (map (spec_drawdown A returns) [0..<length returns])"
    by (simp add: length_np_cumprod length_np_maximum_accumulate)
  fix i
  assume "i < length (map2 (\<lambda>c m. divide64 A (minus64 A c m) m) ?cs (np_maximum_accumulate ?cs))"
  then have i: "i < length returns"
    by (simp add: length_np_cumprod length_np_maximum_accumulate)
  then show "map2 (\<lambda>c m. divide64 A (minus64 A c m) m) ?cs (np_maximum_accumulate ?cs) ! i
          = map (spec_drawdown A returns) [0..<length returns] ! i"
    by (simp add: length_np_cumprod length_np_maximum_accumulate np_cumprod_nth
        running_max_nth [OF assms i] spec_drawdown_def)
qed

lemma spec_drawdown_props:
  assumes ieee: "ieee_arithmetic A"
    and rs: "\<forall>r \<in> set rs. is_double A r \<and> - 1 < r"
    and fin: "list_all finite64 (np_cumprod A (map (\<lambda>r. plus64 A (Finite 1) r) (map Finite rs)))"
    and i: "i < length rs"
  shows "\<exists>e. spec_drawdown A (map Finite rs) i = Finite e \<and> e \<le> 0
            \<and> ((\<forall>r \<in> set rs. 0 < r) \<longrightarrow> e = 0)"
proof -
  let ?d = "\<lambda>k. value64 (spec_cumulative A (map Finite rs) k)"
  let ?m = "Max (?d ` {..i})"
  have props: "is_double A (?d k) \<and> 0 \<le> ?d k \<and> 0 < ?d 0
      \<and> ((\<forall>r \<in> set rs. 0 < r) \<longrightarrow> 0 < ?d k \<and> (\<forall>j \<le> k. ?d j \<le> ?d k))"
    if "k < length rs" for k
    using that by (rule spec_cumulative_props [OF ieee rs fin])
  define dv where "dv = ?d i"
  have ci: "spec_cumulative A (map Finite rs) i = Finite dv"
    unfolding dv_def using fin i by (intro spec_cumulative_finite) simp_all
  have mi: "spec_running_max A (map Finite rs) i = Finite ?m"
    by (simp add: spec_running_max_def)
  have "?m \<in> ?d ` {..i}" by (intro Max_in) simp_all
  then obtain j where "j \<in> {..i}" and mj: "?m = ?d j" by (rule imageE)
  then have j: "j \<le> i" by simp
  have m_dbl: "is_double A ?m" using props [of j] i j mj by simp
  have d_dbl: "is_double A dv" and d0: "0 \<le> dv" using props [OF i] by (simp_all add: dv_def)
  have d_le: "dv \<le> ?m" unfolding dv_def by (intro Max_ge) simp_all
  have "?d 0 \<le> ?m" by (intro Max_ge) simp_all
  moreover have "0 < ?d 0" using props [OF i] by simp
  ultimately have m_pos: "0 < ?m" by linarith
  from ieee_minus [OF ieee d_dbl m_dbl d0 d_le]
  obtain x where x: "minus64 A (Finite dv) (Finite ?m) = Finite x"
    and x_dbl: "is_double A x" and x_lo: "- ?m \<le> x" and x_hi: "x \<le> 0"
    and x_eq: "dv = ?m \<longrightarrow> x = 0"
    by blast
  from ieee_divide [OF ieee x_dbl m_dbl x_lo x_hi m_pos]
  obtain e where e: "divide64 A (Finite x) (Finite ?m) = Finite e"
    and e_le: "e \<le> 0" and e_eq: "x = 0 \<longrightarrow> e = 0"
    by blast
  have dd: "spec_drawdown A (map Finite rs) i = Finite e"
    unfolding spec_drawdown_def ci mi x e ..
  have "e = 0" if all: "\<forall>r \<in> set rs. 0 < r"
  proof -
    have "\<forall>k \<le> i. ?d k \<le> ?d i" using props [OF i] all by simp
    then have "?m = ?d i" by (intro Max_eqI) auto
    with x_eq e_eq show ?thesis by (simp add: dv_def)
  qed
  with dd e_le show ?thesis by blast
qed

text \<open>
  Claim C8, amended. For a non-empty series of float64 returns above \<open>-1\<close> whose running
  product of \<open>1 + r\<close> stays finite, \<open>calculate_max_drawdown\<close> is the least value, over the
  positions of the series, of the distance of the running product to its running maximum,
  relative to that maximum; it is not positive, and it is \<open>0\<close> when all returns are
  positive.
\<close>

theorem max_drawdown_without_overflow:
  assumes "ieee_arithmetic A"
    and "rs \<noteq> []"
    and "\<forall>r \<in> set rs. is_double A r \<and> - 1 < r"
    and "list_all finite64 (np_cumprod A (map (\<lambda>r. plus64 A (Finite 1) r) (map Finite rs)))"
  shows "calculate_max_drawdown A (map Finite rs)
           = Inr (Finite (Min ((\<lambda>i. value64 (spec_drawdown A (map Finite rs) i))
                                 ` {..<length rs})))
       \<and> Min ((\<lambda>i. value64 (spec_drawdown A (map Finite rs) i)) ` {..<length rs}) \<le> 0
       \<and> ((\<forall>r \<in> set rs. 0 < r) \<longrightarrow> calculate_max_drawdown A (map Finite rs) = Inr (Finite 0))"
proof -
  let ?e = "\<lambda>i. value64 (spec_drawdown A (map Finite rs) i)"
  let ?D = "?e ` {..<length rs}"
  have props: "spec_drawdown A (map Finite rs) i = Finite (?e i) \<and> ?e i \<le> 0
      \<and> ((\<forall>r \<in> set rs. 0 < r) \<longrightarrow> ?e i = 0)" if "i < length rs" for i
    using spec_drawdown_props [OF assms(1,3,4) that] by auto
  have "map (spec_drawdown A (map Finite rs)) [0..<length rs] = map Finite (map ?e [0..<length rs])"
    using props by simp
  then have dl: "map2 (\<lambda>c m. divide64 A (minus64 A c m) m)
           (np_cumprod A (map (\<lambda>r. plus64 A (Finite 1) r) (map Finite rs)))
           (np_maximum_accumulate
             (np_cumprod A (map (\<lambda>r. plus64 A (Finite 1) r) (map Finite rs))))
         = map Finite (map ?e [0..<length rs])"
    using drawdown_list [OF assms(4)] by simp
  have ne: "map ?e [0..<length rs] \<noteq> []" using assms(2) by simp
  have set_eq: "set (map ?e [0..<length rs]) = ?D" by (simp add: atLeast0LessThan)
  have eq: "calculate_max_drawdown A (map Finite rs) = Inr (Finite (Min ?D))"
    unfolding calculate_max_drawdown_def Let_def dl
    using np_min_Finite [OF ne] by (simp only: set_eq)
  have fin: "finite ?D" by simp
  have mem: "?e 0 \<in> ?D" using assms(2) by simp
  then have nonempty: "?D \<noteq> {}" by blast
  from mem have "Min ?D \<le> ?e 0" using fin by (intro Min_le)
  moreover have "?e 0 \<le> 0" using props [of 0] assms(2) by simp
  ultimately have le: "Min ?D \<le> 0" by linarith
  have zero: "Min ?D = 0" if "\<forall>r \<in> set rs. 0 < r"
  proof -
    have "?D = {0}" using nonempty props that by auto
    then show ?thesis by simp
  qed
  show ?thesis using eq le zero by simp
qed

lemma bounded_eq_Finite: "bounded x = Finite f \<longleftrightarrow> f = x \<and> \<bar>x\<bar> \<le> largest_double"
  by (auto simp: bounded_def abs_le_iff)

lemma one_le_largest_double: "1 \<le> largest_double"
  using two_power_1023_large largest_double_ge by linarith

lemma ideal_times_Finite:
  "ideal_times x y = Finite z \<Longrightarrow> finite64 x \<and> finite64 y \<and> \<bar>z\<bar> \<le> largest_double"
  by (cases x; cases y) (auto simp: bounded_eq_Finite split: if_splits)

lemma ideal_minus_in_range:
  assumes "\<bar>m\<bar> \<le> largest_double" and "0 \<le> c" and "c \<le> m"
  shows "ideal_minus (Finite c) (Finite m) = Finite (c - m)"
proof -
  have "\<bar>c - m\<bar> \<le> largest_double" using assms by linarith
  then show ?thesis by (simp add: ideal_minus_def bounded_Finite)
qed

lemma ideal_divide_in_range:
  assumes "- m \<le> d" and "d \<le> 0" and "0 < m"
  shows "ideal_divide (Finite d) (Finite m) = Finite (d / m) \<and> d / m \<le> 0"
proof -
  have "- 1 \<le> d / m" using assms by (simp add: pos_le_divide_eq)
  moreover have q: "d / m \<le> 0" using assms by (simp add: divide_le_0_iff)
  ultimately have "\<bar>d / m\<bar> \<le> largest_double" using one_le_largest_double by linarith
  then show ?thesis using assms q by (simp add: ideal_divide_def bounded_Finite)
qed

lemma ideal_is_ieee: "ieee_arithmetic ideal"
  unfolding ieee_arithmetic_def
proof (intro conjI allI impI)
  fix r f
  assume a: "is_double ideal r \<and> plus64 ideal (Finite 1) (Finite r) = Finite f"
  then have f: "f = 1 + r" and b: "\<bar>1 + r\<bar> \<le> largest_double"
    by (simp_all add: ideal_def bounded_eq_Finite)
  show "is_double ideal f" using f b by (simp add: ideal_def)
  show "0 < f" if "- 1 < r" using that f by simp
  show "1 \<le> f" if "0 < r" using that f by simp
next
  fix x y z
  assume "times64 ideal x y = Finite z"
  then have t: "ideal_times x y = Finite z" by (simp add: ideal_def)
  from ideal_times_Finite [OF t]
  show "finite64 x" and "finite64 y" and "is_double ideal z" by (simp_all add: ideal_def)
next
  fix c f z
  assume a: "times64 ideal (Finite c) (Finite f) = Finite z \<and> 0 \<le> c \<and> 0 < f"
  then have z: "z = c * f" by (simp add: ideal_def bounded_eq_Finite)
  show "0 \<le> z" using a z by simp
  show "c \<le> z" if "0 < c \<and> 1 \<le> f" using that z by simp
next
  fix c m
  assume a: "is_double ideal c \<and> is_double ideal m \<and> 0 \<le> c \<and> c \<le> m"
  then have m: "\<bar>m\<bar> \<le> largest_double" by (auto simp: ideal_def)
  have d: "ideal_minus (Finite c) (Finite m) = Finite (c - m)"
    using m a ideal_minus_in_range [of m c] by simp
  have "\<bar>c - m\<bar> \<le> largest_double" using m a by linarith
  then show "\<exists>d. minus64 ideal (Finite c) (Finite m) = Finite d \<and> is_double ideal d \<and>
              - m \<le> d \<and> d \<le> 0 \<and> (c = m \<longrightarrow> d = 0)"
    using d a by (intro exI [of _ "c - m"]) (simp add: ideal_def)
next
  fix d m
  assume a: "is_double ideal d \<and> is_double ideal m \<and> - m \<le> d \<and> d \<le> 0 \<and> 0 < m"
  then have "ideal_divide (Finite d) (Finite m) = Finite (d / m) \<and> d / m \<le> 0"
    by (intro ideal_divide_in_range) simp_all
  then show "\<exists>e. divide64 ideal (Finite d) (Finite m) = Finite e \<and> e \<le> 0 \<and> (d = 0 \<longrightarrow> e = 0)"
    by (intro exI [of _ "d / m"]) (simp add: ideal_def)
qed

lemma max_drawdown_example:
  "calculate_max_drawdown ideal [Finite 1, Finite (- 1 / 2), Finite 1] = Inr (Finite (- 1 / 2))"
  by (simp add: calculate_max_drawdown_def np_min_def ideal_simps)

lemma max_drawdown_example_rising:
  "calculate_max_drawdown ideal [Finite 1, Finite 1] = Inr (Finite 0)"
  by (simp add: calculate_max_drawdown_def np_min_def ideal_simps)

lemma cumprod_example:
  "np_cumprod ideal (map (\<lambda>r. plus64 ideal (Finite 1) r) (map Finite [1, - 1 / 2, 1]))
     = [Finite 2, Finite 1, Finite 2]"
  by (simp add: ideal_simps)

lemma cumprod_example_rising:
  "np_cumprod ideal (map (\<lambda>r. plus64 ideal (Finite 1) r) (map Finite [1, 1]))
     = [Finite 2, Finite 4]"
  by (simp add: ideal_simps)

text \<open>
  Claim C8, as stated, fails: for the returns \<open>[2^512, 2^512]\<close>, both positive, the
  running product overflows to \<open>inf\<close>, \<open>inf - inf\<close> is \<open>nan\<close>, and the result is \<open>nan\<close>,
  neither \<open>0\<close> nor non-positive. (In float64 the sum \<open>1 + 2^512\<close> is rounded to \<open>2^512\<close>;
  rounded or not, its square is at least \<open>2^1024\<close> and overflows.)
\<close>

theorem max_drawdown_overflows:
  "calculate_max_drawdown ideal [Finite (2 ^ 512), Finite (2 ^ 512)] = Inr NaN"
  by (simp add: calculate_max_drawdown_def np_min_def ideal_def ideal_minus_def
      ideal_divide_def bounded_def largest_double_def)

theorem max_drawdown_without_overflow_witness:
  "ieee_arithmetic ideal
   \<and> list_all finite64
        (np_cumprod ideal (map (\<lambda>r. plus64 ideal (Finite 1) r) (map Finite [1, - 1 / 2, 1])))
   \<and> calculate_max_drawdown ideal (map Finite [1, - 1 / 2, 1])
       = Inr (Finite (Min ((\<lambda>i. value64 (spec_drawdown ideal (map Finite [1, - 1 / 2, 1]) i))
                             ` {..<length [1, - 1 / 2, 1 :: real]})))
   \<and> calculate_max_drawdown ideal (map Finite [1, - 1 / 2, 1]) = Inr (Finite (- 1 / 2))
   \<and> calculate_max_drawdown ideal (map Finite [1, 1]) = Inr (Finite 0)"
proof -
  have d: "is_double ideal 1" and d2: "is_double ideal (- 1 / 2)"
    using one_le_largest_double by (simp_all add: ideal_def)
  have n1: "[1, - 1 / 2, 1 :: real] \<noteq> []" and n2: "[1, 1 :: real] \<noteq> []" by simp_all
  have h1: "\<forall>r \<in> set [1, - 1 / 2, 1 :: real]. is_double ideal r \<and> - 1 < r"
    using d d2 by simp
  have h2: "\<forall>r \<in> set [1, 1 :: real]. is_double ideal r \<and> - 1 < r"
    using d by simp
  have p2: "\<forall>r \<in> set [1, 1 :: real]. 0 < r" by simp
  have f1: "list_all finite64
        (np_cumprod ideal (map (\<lambda>r. plus64 ideal (Finite 1) r) (map Finite [1, - 1 / 2, 1])))"
    unfolding cumprod_example by simp
  have f2: "list_all finite64
        (np_cumprod ideal (map (\<lambda>r. plus64 ideal (Finite 1) r) (map Finite [1, 1])))"
    unfolding cumprod_example_rising by simp
  note t1 = max_drawdown_without_overflow [OF ideal_is_ieee n1 h1 f1]
  note t2 = max_drawdown_without_overflow [OF ideal_is_ieee n2 h2 f2]
  have e1: "calculate_max_drawdown ideal (map Finite [1, - 1 / 2, 1]) = Inr (Finite (- 1 / 2))"
    using max_drawdown_example by simp
  have e2: "calculate_max_drawdown ideal (map Finite [1, 1]) = Inr (Finite 0)"
    using t2 p2 by blast
  show ?thesis
    by (intro conjI ideal_is_ieee f1 e1 e2 t1 [THEN conjunct1])
qed

end
